theory Spec2Isabelle
  imports Complex_Main "HOL-Library.Char_ord" "HOL-Library.List_Lexorder"
begin

section \<open>The program and its files\<close>

text \<open>
  GetFame-backend sells social-media services: it takes an order, takes the payment
  through Stripe or NOWPayments, and places the order with the provisioning API
  (JustAnotherPanel, JAP). The repository keeps several generations of the server side
  by side. The definitions below follow these files (paths below \<open>src/\<close>; a file may hold
  several documents one after the other, then the lines are given).

  \<^item> v2. \<open>getfame-backend-v2/lib/orders.js\<close> (\<open>createOrder\<close>, lines 19-72),
    \<open>getfame-backend-v2/lib/services.js\<close> (lines 1-142: \<open>getServices\<close> 22-54, \<open>getServiceById\<close>
    81-89), \<open>getfame-backend-v2/lib/jap-api.js\<close> (\<open>request\<close>, lines 13-39), \<open>lib/payments.js\<close> in
    \<open>unnamed/part_001\<close> (\<open>createCheckoutSession\<close>, lines 24-75), \<open>lib/curated-services.js\<close> in
    \<open>unnamed/part_004\<close> (\<open>ALLOWED_SERVICE_IDS\<close> line 50, \<open>isServiceAllowed\<close> lines 88-90).

  \<^item> The complete v3 backend (server v3.0.2). \<open>getfame-backend-v3-complete/server.js\<close>, lines
    1-161 (\<open>POST /api/order\<close> 61-88, Stripe webhook 126-140, NOWPayments webhook 143-154);
    \<open>getfame-backend-v3-complete/lib/orders.js\<close>, lines 1-39 (\<open>lib/orders.js\<close>) and lines 40-77
    (\<open>lib/nowpayments.js\<close>, \<open>verifyIPNSignature\<close> 68-75); \<open>lib/jap-api.js\<close> in \<open>unnamed/part_003\<close>
    (\<open>fetchJAPServices\<close> 8-24, \<open>createJAPOrder\<close> 26-46); \<open>lib/payments.js\<close> in
    \<open>getfame-backend-v5/README.md\<close>, lines 71-100 (\<open>verifyStripeWebhook\<close> 94-98);
    \<open>lib/services.js\<close> in \<open>getfame-backend-v3/Type: lib/lib/lib/services.js\<close>;
    \<open>lib/curated-services.js\<close> in \<open>unnamed/part_002\<close>.

  \<^item> The other \<open>lib/nowpayments.js\<close> of v3: \<open>getfame-backend-v3/lib/nowpayments.js\<close>
    (\<open>verifyIPNSignature\<close>, lines 71-77), here \<open>verifyIPNSignature_v3\<close>.

  \<^item> v5. \<open>getfame-backend-v5/server.js\<close>, lines 1-853: \<open>addOrder\<close> 71-81, \<open>updateOrderStatus\<close>
    83-91, \<open>sendTelegramNotification\<close> 133-157, \<open>formatOrderNotification\<close> 159-185,
    \<open>sendEmailReceipt\<close> from 190, \<open>validateOrderInput\<close> 402-426, \<open>createJAPOrder\<close> 436-462,
    \<open>POST /api/order\<close> 484-540, Stripe webhook 545-613, NOWPayments webhook 677-729.

  \<^item> The JAP-integrated server. \<open>unnamed/part_000\<close>, lines 1-888: \<open>placeJapOrder\<close> 130-164,
    \<open>updateOrderStatus\<close> 223-234, \<open>getOrderByStripeSession\<close> 236-239, \<open>formatOrderNotification\<close>
    293-322, Stripe webhook 429-484, NOWPayments webhook 562-634.

  Where several generations define a function of the same name, a suffix tells them
  apart: \<open>_v2\<close>, \<open>_v3\<close>, \<open>_v5\<close>, and \<open>_p0\<close> for the JAP-integrated server; the complete v3 backend
  goes without. \<open>addOrder\<close>, \<open>sendTelegramNotification\<close> and the signature check at the head of
  the NOWPayments webhook do the same in v5 and in the JAP-integrated server and are
  modelled once.
\<close>

section \<open>JavaScript values\<close>

text \<open>
  The handlers work on parsed JSON: request bodies, Stripe events, the orders file.
  A number carries its value as a rational (every finite double is one); \<open>undefined\<close> is
  \<open>None\<close> of \<open>json option\<close>. An object is the list of its own properties in the order the
  engine enumerates them, keys distinct.
\<close>

datatype json =
    JNull
  | JBool bool
  | JNum rat
  | JStr string
  | JArr "json list"
  | JObj "(string \<times> json) list"

type_synonym jsval = "json option"

text \<open>
  What the code takes from the runtime and its libraries: the HMAC of Node's
  \<open>crypto\<close> module (key, message, hex digest out) and the engine's \<open>Number::toString\<close>.
\<close>

record builtins =
  hmac_sha512_hex :: "string \<Rightarrow> string \<Rightarrow> string"
  number_toString :: "rat \<Rightarrow> string"

text \<open>\<open>!x\<close> is \<open>\<not> truthy x\<close>.\<close>

fun truthy :: "jsval \<Rightarrow> bool" where
  "truthy None = False"
| "truthy (Some JNull) = False"
| "truthy (Some (JBool b)) = b"
| "truthy (Some (JNum r)) = (r \<noteq> 0)"
| "truthy (Some (JStr s)) = (s \<noteq> [])"
| "truthy (Some (JArr xs)) = True"
| "truthy (Some (JObj kvs)) = True"

text \<open>An environment variable or a request header: a string or \<open>undefined\<close>.\<close>

definition truthy_str :: "string option \<Rightarrow> bool" where
  "truthy_str s = (case s of None \<Rightarrow> False | Some v \<Rightarrow> v \<noteq> [])"

text \<open>
  \<open>===\<close> on values that come out of a parse: primitives compare by value, two objects
  or arrays are never the same reference.
\<close>

fun strict_eq :: "jsval \<Rightarrow> jsval \<Rightarrow> bool" where
  "strict_eq None None = True"
| "strict_eq (Some JNull) (Some JNull) = True"
| "strict_eq (Some (JBool a)) (Some (JBool b)) = (a = b)"
| "strict_eq (Some (JNum a)) (Some (JNum b)) = (a = b)"
| "strict_eq (Some (JStr a)) (Some (JStr b)) = (a = b)"
| "strict_eq _ _ = False"

fun the_JStr :: "jsval \<Rightarrow> string" where
  "the_JStr (Some (JStr s)) = s"
| "the_JStr v = []"

function show_nat :: "nat \<Rightarrow> string" where
  "show_nat n =
     (if n < 10 then [''0123456789'' ! n]
      else show_nat (n div 10) @ [''0123456789'' ! (n mod 10)])"
  by pat_completeness auto
termination
  by (relation "measure id") auto

declare show_nat.simps [simp del]

text \<open>
  An array index is a canonical decimal string below \<open>2^32 - 1\<close>; such keys come first,
  in ascending order, when an object's own keys are listed.
\<close>

definition digit_val :: "char \<Rightarrow> nat" where
  "digit_val c = of_char c - 48"

definition is_digit :: "char \<Rightarrow> bool" where
  "is_digit c = (48 \<le> (of_char c :: nat) \<and> (of_char c :: nat) \<le> 57)"

definition array_index :: "string \<Rightarrow> nat option" where
  "array_index s =
     (if s = [] \<or> \<not> list_all is_digit s then None
      else if hd s = CHR ''0'' \<and> length s > 1 then None
      else (let n = foldl (\<lambda>acc c. 10 * acc + digit_val c) 0 s
            in if n \<le> 4294967294 then Some n else None))"

text \<open>Reading an own property, \<open>holder[key]\<close> for a key that \<open>Object.keys\<close> returned.\<close>

fun own_prop :: "json \<Rightarrow> string \<Rightarrow> jsval" where
  "own_prop (JObj kvs) k = map_of kvs k"
| "own_prop (JArr xs) k =
     (case array_index k of
        None \<Rightarrow> None
      | Some i \<Rightarrow> if i < length xs then Some (xs ! i) else None)"
| "own_prop (JStr s) k =
     (case array_index k of
        None \<Rightarrow> None
      | Some i \<Rightarrow> if i < length s then Some (JStr [s ! i]) else None)"
| "own_prop _ k = None"

text \<open>
  \<open>Object.keys(x)\<close>: a \<open>TypeError\<close> (\<open>None\<close>) on \<open>null\<close>, the indices of an array or a
  string, nothing for a number or a boolean.
\<close>

fun Object_keys :: "json \<Rightarrow> string list option" where
  "Object_keys JNull = None"
| "Object_keys (JObj kvs) = Some (map fst kvs)"
| "Object_keys (JArr xs) = Some (map show_nat [0..<length xs])"
| "Object_keys (JStr s) = Some (map show_nat [0..<length s])"
| "Object_keys _ = Some []"

text \<open>
  \<open>acc[key] = v\<close> on a plain object. An existing key keeps its place; a new array index
  goes among the indices, any other new key at the end. The key \<open>__proto__\<close> reaches the
  setter of \<open>Object.prototype\<close> and creates no own property.
\<close>

fun insert_index :: "nat \<Rightarrow> string \<Rightarrow> 'v \<Rightarrow> (string \<times> 'v) list \<Rightarrow> (string \<times> 'v) list" where
  "insert_index i k v [] = [(k, v)]"
| "insert_index i k v ((k', v') # rest) =
     (case array_index k' of
        None \<Rightarrow> (k, v) # (k', v') # rest
      | Some j \<Rightarrow> if i < j then (k, v) # (k', v') # rest
                  else (k', v') # insert_index i k v rest)"

definition obj_set :: "(string \<times> 'v) list \<Rightarrow> string \<Rightarrow> 'v \<Rightarrow> (string \<times> 'v) list" where
  "obj_set kvs k v =
     (if k = ''__proto__'' then kvs
      else if k \<in> set (map fst kvs) then map (\<lambda>(k', v'). if k' = k then (k', v) else (k', v')) kvs
      else (case array_index k of
              None \<Rightarrow> kvs @ [(k, v)]
            | Some i \<Rightarrow> insert_index i k v kvs))"

section \<open>JSON.stringify\<close>

definition hex_digit :: "nat \<Rightarrow> char" where
  "hex_digit n = ''0123456789abcdef'' ! (n mod 16)"

definition quote_char :: "char \<Rightarrow> string" where
  "quote_char c =
     (if c = CHR 0x22 then [CHR 0x5C, CHR 0x22]
      else if c = CHR 0x5C then [CHR 0x5C, CHR 0x5C]
      else if c = CHR 0x08 then [CHR 0x5C, CHR ''b'']
      else if c = CHR 0x09 then [CHR 0x5C, CHR ''t'']
      else if c = CHR 0x0A then [CHR 0x5C, CHR ''n'']
      else if c = CHR 0x0C then [CHR 0x5C, CHR ''f'']
      else if c = CHR 0x0D then [CHR 0x5C, CHR ''r'']
      else if (of_char c :: nat) < 32
        then [CHR 0x5C, CHR ''u'', CHR ''0'', CHR ''0'',
              hex_digit (of_char c div 16), hex_digit (of_char c mod 16)]
      else [c])"

definition QuoteJSONString :: "string \<Rightarrow> string" where
  "QuoteJSONString s = CHR 0x22 # concat (map quote_char s) @ [CHR 0x22]"

fun join_with :: "string \<Rightarrow> string list \<Rightarrow> string" where
  "join_with sep [] = []"
| "join_with sep [x] = x"
| "join_with sep (x # y # ys) = x @ sep @ join_with sep (y # ys)"

text \<open>
  The members of an object under an array replacer: the property list \<open>ks\<close> is walked in
  its own order and each key is read from the holder. The argument \<open>members\<close> holds the
  own properties, already serialized. A key the holder does not own is read through the
  prototype chain: everything on \<open>Object.prototype\<close> is a function and is left out, except
  the accessor \<open>__proto__\<close>, which yields \<open>Object.prototype\<close> itself, an object whose only
  listed member is again \<open>__proto__\<close>, now \<open>null\<close>.
\<close>

definition replacer_member :: "(string \<times> string) list \<Rightarrow> string \<Rightarrow> string list" where
  "replacer_member members p =
     (case map_of members p of
        Some str \<Rightarrow> [QuoteJSONString p @ '':'' @ str]
      | None \<Rightarrow>
          if p = ''__proto__''
          then [QuoteJSONString p @ '':'' @ ''{'' @ QuoteJSONString p @ '':null}'']
          else [])"

text \<open>
  \<open>JSON.stringify(value, replacer)\<close> with no indentation; \<open>replacer\<close> is absent (\<open>None\<close>) or
  an array of distinct strings. An array replacer is the property list of every object,
  at every depth; arrays are written element by element.
\<close>

fun serialize :: "builtins \<Rightarrow> string list option \<Rightarrow> json \<Rightarrow> string" where
  "serialize rt K JNull = ''null''"
| "serialize rt K (JBool b) = (if b then ''true'' else ''false'')"
| "serialize rt K (JNum r) = number_toString rt r"
| "serialize rt K (JStr s) = QuoteJSONString s"
| "serialize rt K (JArr xs) = ''['' @ join_with '','' (map (serialize rt K) xs) @ '']''"
| "serialize rt K (JObj kvs) =
     (let members = map (\<lambda>(k, v). (k, serialize rt K v)) kvs
      in ''{'' @ join_with '',''
           (case K of
              None \<Rightarrow> map (\<lambda>(k, str). QuoteJSONString k @ '':'' @ str) members
            | Some ks \<Rightarrow> concat (map (replacer_member members) ks))
         @ ''}'')"

definition JSON_stringify :: "builtins \<Rightarrow> json \<Rightarrow> string list option \<Rightarrow> string" where
  "JSON_stringify rt v replacer = serialize rt replacer v"

section \<open>verifyIPNSignature\<close>

datatype js_error =
    TypeError
  | SyntaxError
  | FetchError
  | StripeError
  | Error json
  | QuantityOutOfRange "rat option" "rat option"

text \<open>
  \<open>lib/nowpayments.js\<close> of the complete v3 backend: no secret, no check.
\<close>

definition verifyIPNSignature :: "builtins \<Rightarrow> string option \<Rightarrow> json \<Rightarrow> string option \<Rightarrow> js_error + bool" where
  "verifyIPNSignature rt secret payload signature =
     (if \<not> truthy_str secret then Inr True
      else (case Object_keys payload of
              None \<Rightarrow> Inl TypeError
            | Some ks \<Rightarrow>
                Inr (Some (hmac_sha512_hex rt (the secret)
                       (JSON_stringify rt payload (Some (sort ks)))) = signature)))"

text \<open>
  \<open>lib/nowpayments.js\<close> of the v3 backend: the key is \<open>secret || ''\<close>.
\<close>

definition verifyIPNSignature_v3 :: "builtins \<Rightarrow> string option \<Rightarrow> json \<Rightarrow> string option \<Rightarrow> js_error + bool" where
  "verifyIPNSignature_v3 rt secret payload signature =
     (case Object_keys payload of
        None \<Rightarrow> Inl TypeError
      | Some ks \<Rightarrow>
          Inr (Some (hmac_sha512_hex rt (if truthy_str secret then the secret else [])
                 (JSON_stringify rt payload (Some (sort ks)))) = signature))"

text \<open>
  The payload with every property of a nested object removed whose key is not in \<open>ks\<close>:
  what is left of it once the fields that occur only below the top level are taken away.
\<close>

fun prune :: "string list \<Rightarrow> json \<Rightarrow> json" where
  "prune ks (JArr xs) = JArr (map (prune ks) xs)"
| "prune ks (JObj kvs) =
     JObj (filter (\<lambda>(k, v). k \<in> set ks) (map (\<lambda>(k, v). (k, prune ks v)) kvs))"
| "prune ks v = v"

definition signed_part :: "json \<Rightarrow> json" where
  "signed_part payload =
     (case Object_keys payload of None \<Rightarrow> payload | Some ks \<Rightarrow> prune ks payload)"

section \<open>Requests, responses and the outside world\<close>

text \<open>
  What a handler answers: \<open>res.status(n).json(v)\<close>, \<open>res.status(n).send(text)\<close>, a body
  built from the message of a caught exception, or nothing at all when the handler
  itself throws outside any \<open>try\<close>.
\<close>

datatype response =
    Resp nat json
  | RespText nat string
  | RespError nat js_error
  | Unanswered js_error

record env =
  STRIPE_SECRET_KEY :: "string option"
  STRIPE_WEBHOOK_SECRET :: "string option"
  NOWPAYMENTS_IPN_SECRET :: "string option"
  JAP_API_KEY :: "string option"
  TELEGRAM_BOT_TOKEN :: "string option"
  TELEGRAM_CHAT_ID :: "string option"
  RESEND_API_KEY :: "string option"

text \<open>
  Library calls whose insides are not part of the repository: the Stripe SDK's
  \<open>webhooks.constructEvent(payload, signature, secret)\<close>, \<open>JSON.parse\<close>, \<open>parseInt\<close> and the
  double division \<open>x / 100\<close> (\<open>NaN\<close> is \<open>None\<close>). The last two give the number for an argument
  that can be converted; where the conversion throws is said at each call
  (\<open>unconvertible\<close> below).
\<close>

record libs =
  constructEvent :: "string \<Rightarrow> string option \<Rightarrow> string \<Rightarrow> js_error + json"
  JSON_parse :: "string \<Rightarrow> js_error + json"
  parseInt :: "jsval \<Rightarrow> rat option"
  div100 :: "jsval \<Rightarrow> rat option"

record clock =
  now_ms :: nat
  now_iso :: string

text \<open>A number as \<open>JSON.stringify\<close> writes it: \<open>NaN\<close> becomes \<open>null\<close>.\<close>

definition num_json :: "rat option \<Rightarrow> json" where
  "num_json n = (case n of None \<Rightarrow> JNull | Some r \<Rightarrow> JNum r)"

text \<open>
  The provisioning API (JAP). A request is the triple the code sends with
  \<open>action: 'add'\<close>; the reply is the parsed response body or a failed \<open>fetch\<close>. The upstream
  is a function of the number of requests made so far and of the request.
\<close>

record jap_request =
  service :: jsval
  link :: jsval
  quantity :: jsval

datatype jap_reply = NetworkError | Reply json

type_synonym upstream = "nat \<Rightarrow> jap_request \<Rightarrow> jap_reply"

text \<open>
  \<open>x.p\<close>: a \<open>TypeError\<close> on \<open>undefined\<close> and \<open>null\<close>, the own property otherwise. The names
  the handlers read (\<open>type\<close>, \<open>data\<close>, \<open>object\<close>, \<open>metadata\<close>, \<open>quantity\<close>, \<open>order\<close>, \<open>error\<close>, ...) are
  on none of the built-in prototypes, with one exception: \<open>link\<close> read from a string is the
  method \<open>String.prototype.link\<close>, a function. It is truthy, has no \<open>substring\<close>, and
  \<open>JSON.stringify\<close> leaves it out; the two handlers that read \<open>metadata.link\<close> test for it.
\<close>

fun member :: "jsval \<Rightarrow> string \<Rightarrow> js_error + jsval" where
  "member None k = Inl TypeError"
| "member (Some JNull) k = Inl TypeError"
| "member (Some v) k = Inr (own_prop v k)"

fun inherits_link :: "json \<Rightarrow> bool" where
  "inherits_link (JStr s) = True"
| "inherits_link v = False"

text \<open>
  Converting a parsed value to a primitive, as template literals, \<open>parseInt\<close>, \<open>parseFloat\<close>,
  arithmetic, comparison, \<open>new Error(x)\<close> and \<open>URLSearchParams\<close> do. An object is asked for its
  \<open>toString\<close>; an own property of that name, which is never a function in parsed JSON,
  hides the inherited method, and the conversion ends in a \<open>TypeError\<close>. An array joins
  its elements and converts each one that is not \<open>null\<close>.
\<close>

fun ToPrimitive_throws :: "json \<Rightarrow> bool" where
  "ToPrimitive_throws (JObj kvs) = (''toString'' \<in> set (map fst kvs))"
| "ToPrimitive_throws (JArr xs) = list_ex ToPrimitive_throws xs"
| "ToPrimitive_throws v = False"

definition unconvertible :: "jsval \<Rightarrow> bool" where
  "unconvertible v = (case v of None \<Rightarrow> False | Some x \<Rightarrow> ToPrimitive_throws x)"

text \<open>\<open>x?.toUpperCase()\<close>; the string is kept as it is, the notice shows it in capitals.\<close>

fun optional_toUpperCase :: "jsval \<Rightarrow> js_error + string option" where
  "optional_toUpperCase None = Inr None"
| "optional_toUpperCase (Some JNull) = Inr None"
| "optional_toUpperCase (Some (JStr s)) = Inr (Some s)"
| "optional_toUpperCase (Some v) = Inl TypeError"

section \<open>The orders file (\<open>server.js\<close> of v5 and of the JAP-integrated server)\<close>

text \<open>
  An order is a plain object; \<open>orders.json\<close> holds the array of them, newest first. The
  file is taken to be readable and writable (\<open>loadOrders\<close> and \<open>saveOrders\<close> swallow the
  errors of \<open>fs\<close>). Properties whose value is \<open>undefined\<close> do not survive the write.
\<close>

type_synonym order = "(string \<times> json) list"

definition file_object :: "(string \<times> jsval) list \<Rightarrow> order" where
  "file_object ps = concat (map (\<lambda>(k, v). case v of None \<Rightarrow> [] | Some x \<Rightarrow> [(k, x)]) ps)"

datatype jap_failure = NotConfigured | UpstreamError json | Threw js_error

datatype jap_result = JapSuccess json | JapFailure jap_failure

text \<open>
  What leaves the server besides the upstream orders: the messages handed to Telegram's
  \<open>sendMessage\<close> (the texts are kept as the data they are built from) and the receipts
  handed to Resend. \<open>sent\<close> lists these requests in the order they are made; both senders
  swallow the errors of their \<open>fetch\<close>, so whether a request arrived is not recorded.
  \<open>JapCreated\<close> is the message \<open>JAP Order Created\<close>, \<open>JapFailed\<close> the alert
  \<open>JAP Order Failed - Manual action needed\<close>.
\<close>

datatype pay_method = StripeCard | Crypto "string option"

datatype notice =
    OrderNotice_v5 order pay_method
  | OrderNotice order pay_method jap_result
  | JapCreated json
  | JapFailed jsval
  | CryptoOrder_v5 jsval "string option" jsval
  | CryptoOrder jsval "string option" jsval

datatype effect = Telegram notice | EmailReceipt order

record world =
  orders_file :: "order list"
  jap_calls :: "jap_request list"
  sent :: "effect list"

definition addOrder :: "clock \<Rightarrow> (string \<times> jsval) list \<Rightarrow> world \<Rightarrow> order \<times> world" where
  "addOrder clk orderData w =
     (let newOrder = obj_set
            (foldl (\<lambda>acc (k, v). obj_set acc k v) [(''id'', JNum (of_nat (now_ms clk)))]
               (file_object orderData))
            ''date'' (JStr (now_iso clk))
      in (newOrder, w\<lparr>orders_file := newOrder # orders_file w\<rparr>))"

fun findIndex :: "('a \<Rightarrow> bool) \<Rightarrow> 'a list \<Rightarrow> nat option" where
  "findIndex P [] = None"
| "findIndex P (x # xs) = (if P x then Some 0 else map_option Suc (findIndex P xs))"


definition updateOrderStatus_p0 :: "clock \<Rightarrow> jsval \<Rightarrow> string \<Rightarrow> jsval \<Rightarrow> world \<Rightarrow> order option \<times> world" where
  "updateOrderStatus_p0 clk orderId status japOrderId w =
     (case findIndex (\<lambda>ord. strict_eq (map_of ord ''id'') orderId \<or> strict_eq (map_of ord ''orderId'') orderId)
             (orders_file w) of
        None \<Rightarrow> (None, w)
      | Some index \<Rightarrow>
          (let o1 = obj_set (orders_file w ! index) ''status'' (JStr status);
               o2 = (if truthy japOrderId then obj_set o1 ''japOrderId'' (the japOrderId) else o1);
               o3 = obj_set o2 ''updatedAt'' (JStr (now_iso clk))
           in (Some o3, w\<lparr>orders_file := (orders_file w)[index := o3]\<rparr>)))"

definition getOrderByStripeSession :: "jsval \<Rightarrow> world \<Rightarrow> order option" where
  "getOrderByStripeSession sessionId w =
     find (\<lambda>ord. strict_eq (map_of ord ''stripeSessionId'') sessionId) (orders_file w)"

definition sendTelegramNotification :: "env \<Rightarrow> notice \<Rightarrow> world \<Rightarrow> world" where
  "sendTelegramNotification e message w =
     (if \<not> truthy_str (TELEGRAM_BOT_TOKEN e) \<or> \<not> truthy_str (TELEGRAM_CHAT_ID e) then w
      else w\<lparr>sent := sent w @ [Telegram message]\<rparr>)"

text \<open>
  \<open>formatOrderNotification\<close> calls \<open>order.email.replace\<close> and \<open>order.link.substring\<close> on truthy
  values, \<open>order.quantity?.toLocaleString()\<close> and \<open>order.amount?.toFixed(2)\<close>; on a value that has
  no such method this is a \<open>TypeError\<close>. Platform, service and quality go into the
  template literal as they are. The text of the notice itself is not modelled, only
  whether building it throws.
\<close>

fun is_JStr :: "jsval \<Rightarrow> bool" where
  "is_JStr (Some (JStr s)) = True"
| "is_JStr _ = False"

fun nullish :: "jsval \<Rightarrow> bool" where
  "nullish None = True"
| "nullish (Some JNull) = True"
| "nullish _ = False"

fun is_JNum :: "jsval \<Rightarrow> bool" where
  "is_JNum (Some (JNum r)) = True"
| "is_JNum _ = False"

text \<open>
  \<open>x.toLocaleString()\<close> on a parsed value: an object reaches \<open>Object.prototype.toLocaleString\<close>,
  which calls \<open>this.toString()\<close>, unless an own property of either name, never a function,
  stands in the way; an array asks each of its elements that is not \<open>null\<close>.
\<close>

fun toLocaleString_throws :: "json \<Rightarrow> bool" where
  "toLocaleString_throws (JObj kvs) =
     (''toLocaleString'' \<in> set (map fst kvs) \<or> ''toString'' \<in> set (map fst kvs))"
| "toLocaleString_throws (JArr xs) = list_ex toLocaleString_throws xs"
| "toLocaleString_throws v = False"

definition order_lines_throw :: "order \<Rightarrow> bool" where
  "order_lines_throw ord =
     ((truthy (map_of ord ''email'') \<and> \<not> is_JStr (map_of ord ''email''))
      \<or> (truthy (map_of ord ''link'') \<and> \<not> is_JStr (map_of ord ''link''))
      \<or> unconvertible (map_of ord ''platform'')
      \<or> unconvertible (map_of ord ''service'')
      \<or> unconvertible (map_of ord ''quality'')
      \<or> (case map_of ord ''quantity'' of None \<Rightarrow> False | Some q \<Rightarrow> toLocaleString_throws q)
      \<or> (\<not> nullish (map_of ord ''amount'') \<and> \<not> is_JNum (map_of ord ''amount'')))"


text \<open>
  The version of the JAP-integrated server prints the upstream result: the order number
  on success, the error otherwise.
\<close>

fun japStatus_throws :: "jap_result \<Rightarrow> bool" where
  "japStatus_throws (JapSuccess oid) = ToPrimitive_throws oid"
| "japStatus_throws (JapFailure (UpstreamError err)) = ToPrimitive_throws err"
| "japStatus_throws (JapFailure f) = False"

definition formatOrderNotification_throws :: "order \<Rightarrow> jap_result \<Rightarrow> bool" where
  "formatOrderNotification_throws ord japResult = (order_lines_throw ord \<or> japStatus_throws japResult)"

section \<open>NOWPayments webhook: the signature check of both servers\<close>

text \<open>
  The same lines open the handler in \<open>server.js\<close> of v5 and in the JAP-integrated server:
  the check runs only when a secret is configured and the request carries a truthy
  \<open>x-nowpayments-sig\<close> header. \<open>Inr True\<close>: go on; \<open>Inr False\<close>: signature mismatch; \<open>Inl\<close>: the
  code threw inside the handler's \<open>try\<close>.
\<close>

definition sortedParams :: "json \<Rightarrow> string list \<Rightarrow> json" where
  "sortedParams body ks =
     JObj (foldl (\<lambda>acc key. case own_prop body key of None \<Rightarrow> acc | Some v \<Rightarrow> obj_set acc key v)
             [] (sort ks))"

definition expectedSig :: "builtins \<Rightarrow> string \<Rightarrow> json \<Rightarrow> string list \<Rightarrow> string" where
  "expectedSig rt secret body ks =
     hmac_sha512_hex rt secret (JSON_stringify rt (sortedParams body ks) None)"

definition ipn_signature_check :: "builtins \<Rightarrow> env \<Rightarrow> string option \<Rightarrow> json \<Rightarrow> js_error + bool" where
  "ipn_signature_check rt e receivedSig body =
     (if truthy_str (NOWPAYMENTS_IPN_SECRET e) then
        (if truthy_str receivedSig then
           (case Object_keys body of
              None \<Rightarrow> Inl TypeError
            | Some ks \<Rightarrow>
                if the receivedSig \<noteq> expectedSig rt (the (NOWPAYMENTS_IPN_SECRET e)) body ks
                then Inr False else Inr True)
         else Inr True)
      else Inr True)"

definition payment_complete :: "jsval \<Rightarrow> bool" where
  "payment_complete payment_status =
     (strict_eq payment_status (Some (JStr ''finished''))
      \<or> strict_eq payment_status (Some (JStr ''confirmed'')))"

section \<open>\<open>server.js\<close> of v5: webhooks\<close>

text \<open>
  The notice \<open>NEW CRYPTO ORDER\<close> that both servers send from the request body alone: a
  template literal over \<open>price_amount\<close>, \<open>pay_currency?.toUpperCase()\<close> and \<open>order_id\<close>, built
  inside the handler's \<open>try\<close>.
\<close>

definition crypto_order_notice :: "(jsval \<Rightarrow> string option \<Rightarrow> jsval \<Rightarrow> notice) \<Rightarrow> env \<Rightarrow> json \<Rightarrow> world
    \<Rightarrow> response \<times> world" where
  "crypto_order_notice mk e body w =
     (if unconvertible (own_prop body ''price_amount'')
      then (Resp 500 (JObj [(''error'', JStr ''Webhook processing failed'')]), w)
      else (case optional_toUpperCase (own_prop body ''pay_currency'') of
              Inl err \<Rightarrow> (Resp 500 (JObj [(''error'', JStr ''Webhook processing failed'')]), w)
            | Inr cur \<Rightarrow>
                if unconvertible (own_prop body ''order_id'')
                then (Resp 500 (JObj [(''error'', JStr ''Webhook processing failed'')]), w)
                else (Resp 200 (JObj [(''success'', JBool True)]),
                      sendTelegramNotification e
                        (mk (own_prop body ''price_amount'') cur (own_prop body ''order_id'')) w)))"

text \<open>What the NOWPayments handler does once the signature check lets the request through.\<close>

definition nowpayments_event_v5 :: "env \<Rightarrow> json \<Rightarrow> world \<Rightarrow> response \<times> world" where
  "nowpayments_event_v5 e body w =
     (case member (Some body) ''payment_status'' of
        Inl err \<Rightarrow> (Resp 500 (JObj [(''error'', JStr ''Webhook processing failed'')]), w)
      | Inr payment_status \<Rightarrow>
          if payment_complete payment_status then crypto_order_notice CryptoOrder_v5 e body w
          else (Resp 200 (JObj [(''success'', JBool True)]), w))"

definition nowpayments_webhook_v5 :: "builtins \<Rightarrow> env \<Rightarrow> string option \<Rightarrow> json \<Rightarrow> world \<Rightarrow> response \<times> world" where
  "nowpayments_webhook_v5 rt e receivedSig body w =
     (case ipn_signature_check rt e receivedSig body of
        Inl err \<Rightarrow> (Resp 500 (JObj [(''error'', JStr ''Webhook processing failed'')]), w)
      | Inr False \<Rightarrow> (Resp 400 (JObj [(''error'', JStr ''Invalid signature'')]), w)
      | Inr True \<Rightarrow> nowpayments_event_v5 e body w)"


text \<open>The \<open>order\<close> field of an upstream reply, \<open>undefined\<close> when there is no reply to read.\<close>

definition reply_order :: "jap_reply \<Rightarrow> jsval" where
  "reply_order r = (case r of NetworkError \<Rightarrow> None | Reply data \<Rightarrow> own_prop data ''order'')"

definition sendEmailReceipt :: "env \<Rightarrow> order \<Rightarrow> world \<Rightarrow> world" where
  "sendEmailReceipt e ord w =
     (if \<not> truthy_str (RESEND_API_KEY e) then w
      else if \<not> truthy (map_of ord ''email'') then w
      else w\<lparr>sent := sent w @ [EmailReceipt ord]\<rparr>)"







section \<open>The JAP-integrated server: webhooks\<close>

text \<open>
  \<open>placeJapOrder\<close>: one \<open>fetch\<close>; every failure, a missing key included, comes back as
  \<open>{ success: false, error }\<close>. After a reply with an order number the log line puts the
  number and the service id into a template literal, still inside the \<open>try\<close>.
\<close>

definition placeJapOrder :: "env \<Rightarrow> upstream \<Rightarrow> jap_request \<Rightarrow> world \<Rightarrow> jap_result \<times> world" where
  "placeJapOrder e jap req w =
     (if \<not> truthy_str (JAP_API_KEY e) then (JapFailure NotConfigured, w)
      else (case jap (length (jap_calls w)) req of
              NetworkError \<Rightarrow> JapFailure (Threw FetchError)
            | Reply JNull \<Rightarrow> JapFailure (Threw TypeError)
            | Reply data \<Rightarrow>
                if truthy (own_prop data ''order'') then
                  (if unconvertible (own_prop data ''order'') \<or> unconvertible (service req)
                   then JapFailure (Threw TypeError)
                   else JapSuccess (the (own_prop data ''order'')))
                else JapFailure (UpstreamError
                       (if truthy (own_prop data ''error'') then the (own_prop data ''error'')
                        else JStr ''Unknown JAP error'')),
            w\<lparr>jap_calls := jap_calls w @ [req]\<rparr>))"

fun jap_success :: "jap_result \<Rightarrow> bool" where
  "jap_success (JapSuccess oid) = True"
| "jap_success (JapFailure f) = False"

fun jap_orderId :: "jap_result \<Rightarrow> jsval" where
  "jap_orderId (JapSuccess oid) = Some oid"
| "jap_orderId (JapFailure f) = None"

text \<open>The NOWPayments handler once the signature check lets the request through.\<close>

definition nowpayments_event_p0 :: "env \<Rightarrow> upstream \<Rightarrow> clock \<Rightarrow> json \<Rightarrow> world \<Rightarrow> response \<times> world" where
  "nowpayments_event_p0 e jap clk body w =
     (case member (Some body) ''payment_status'' of
        Inl err \<Rightarrow> (Resp 500 (JObj [(''error'', JStr ''Webhook processing failed'')]), w)
      | Inr payment_status \<Rightarrow>
          if payment_complete payment_status then
            (case find (\<lambda>ord. strict_eq (map_of ord ''orderId'') (own_prop body ''order_id'')) (orders_file w) of
               Some ord \<Rightarrow>
                 if truthy (map_of ord ''japServiceId'') then
                   (let (japResult, w1) = placeJapOrder e jap
                          \<lparr>service = map_of ord ''japServiceId'', link = map_of ord ''link'',
                           quantity = map_of ord ''quantity''\<rparr> w;
                        w2 = snd (updateOrderStatus_p0 clk (map_of ord ''id'')
                               (if jap_success japResult then ''processing'' else ''pending'')
                               (jap_orderId japResult) w1)
                    in case optional_toUpperCase (own_prop body ''pay_currency'') of
                         Inl err \<Rightarrow> (Resp 500 (JObj [(''error'', JStr ''Webhook processing failed'')]), w2)
                       | Inr cur \<Rightarrow>
                           if formatOrderNotification_throws ord japResult
                           then (Resp 500 (JObj [(''error'', JStr ''Webhook processing failed'')]), w2)
                           else (Resp 200 (JObj [(''success'', JBool True)]),
                                 sendTelegramNotification e (OrderNotice ord (Crypto cur) japResult) w2))
                 else crypto_order_notice CryptoOrder e body w
             | None \<Rightarrow> crypto_order_notice CryptoOrder e body w)
          else (Resp 200 (JObj [(''success'', JBool True)]), w))"

definition nowpayments_webhook_p0 :: "builtins \<Rightarrow> env \<Rightarrow> upstream \<Rightarrow> clock \<Rightarrow> string option \<Rightarrow> json \<Rightarrow> world \<Rightarrow> response \<times> world" where
  "nowpayments_webhook_p0 rt e jap clk receivedSig body w =
     (case ipn_signature_check rt e receivedSig body of
        Inl err \<Rightarrow> (Resp 500 (JObj [(''error'', JStr ''Webhook processing failed'')]), w)
      | Inr False \<Rightarrow> (Resp 400 (JObj [(''error'', JStr ''Invalid signature'')]), w)
      | Inr True \<Rightarrow> nowpayments_event_p0 e jap clk body w)"

text \<open>
  The Stripe handler after the event is there. The upstream order is placed first, from
  the session's metadata; only then is the stored order looked up. Nothing here is
  inside a \<open>try\<close>: the division \<open>session.amount_total / 100\<close> and the two \<open>parseInt\<close> calls come
  before \<open>placeJapOrder\<close> and end the handler when they throw (\<open>metadata_p0_throws\<close>).
\<close>

definition metadata_p0_throws :: "json \<Rightarrow> json \<Rightarrow> bool" where
  "metadata_p0_throws session metadata =
     (unconvertible (own_prop session ''amount_total'')
      \<or> unconvertible (own_prop metadata ''japServiceId'')
      \<or> unconvertible (own_prop metadata ''quantity''))"

definition jap_request_p0 :: "libs \<Rightarrow> json \<Rightarrow> jap_request" where
  "jap_request_p0 lb metadata =
     \<lparr>service = Some (num_json (parseInt lb (own_prop metadata ''japServiceId''))),
      link = own_prop metadata ''link'',
      quantity = Some (num_json (parseInt lb (own_prop metadata ''quantity'')))\<rparr>"

definition noted_order_p0 :: "libs \<Rightarrow> json \<Rightarrow> json \<Rightarrow> order" where
  "noted_order_p0 lb session metadata =
     file_object
       [(''email'', own_prop session ''customer_email''),
        (''link'', own_prop metadata ''link''),
        (''quantity'', Some (num_json (parseInt lb (own_prop metadata ''quantity'')))),
        (''amount'', Some (num_json (div100 lb (own_prop session ''amount_total'')))),
        (''platform'', own_prop metadata ''platform''),
        (''service'', own_prop metadata ''service''),
        (''quality'', own_prop metadata ''quality'')]"

definition checkout_completed_p0 :: "libs \<Rightarrow> env \<Rightarrow> upstream \<Rightarrow> clock \<Rightarrow> json \<Rightarrow> json \<Rightarrow> world \<Rightarrow> response \<times> world" where
  "checkout_completed_p0 lb e jap clk session metadata w =
     (if metadata_p0_throws session metadata then (Unanswered TypeError, w)
      else
        (let (japResult, w1) = placeJapOrder e jap (jap_request_p0 lb metadata) w;
             w2 = (case getOrderByStripeSession (own_prop session ''id'') w1 of
                     None \<Rightarrow> w1
                   | Some ord \<Rightarrow>
                       snd (updateOrderStatus_p0 clk (map_of ord ''id'')
                              (if jap_success japResult then ''processing'' else ''pending'')
                              (jap_orderId japResult) w1))
         in if inherits_link metadata
               \<or> formatOrderNotification_throws (noted_order_p0 lb session metadata) japResult
            then (Unanswered TypeError, w2)
            else (Resp 200 (JObj [(''received'', JBool True)]),
                  sendTelegramNotification e
                    (OrderNotice (noted_order_p0 lb session metadata) StripeCard japResult) w2)))"

definition stripe_event_p0 :: "libs \<Rightarrow> env \<Rightarrow> upstream \<Rightarrow> clock \<Rightarrow> json \<Rightarrow> world \<Rightarrow> response \<times> world" where
  "stripe_event_p0 lb e jap clk event w =
     (case member (Some event) ''type'' of
        Inl err \<Rightarrow> (Unanswered err, w)
      | Inr type \<Rightarrow>
          if strict_eq type (Some (JStr ''checkout.session.completed'')) then
            (case member (own_prop event ''data'') ''object'' of
               Inl err \<Rightarrow> (Unanswered err, w)
             | Inr session \<Rightarrow>
                 (case member session ''metadata'' of
                    Inl err \<Rightarrow> (Unanswered err, w)
                  | Inr metadata \<Rightarrow>
                      (case member metadata ''link'' of
                         Inl err \<Rightarrow> (Unanswered err, w)
                       | Inr l \<Rightarrow> checkout_completed_p0 lb e jap clk (the session) (the metadata) w)))
          else (Resp 200 (JObj [(''received'', JBool True)]), w))"

text \<open>
  The event is built inside a \<open>try\<close>: by the SDK when a webhook secret is configured, by
  \<open>JSON.parse\<close> of the raw body when it is not.
\<close>

definition constructed_event_p0 :: "libs \<Rightarrow> env \<Rightarrow> string option \<Rightarrow> string \<Rightarrow> js_error + json" where
  "constructed_event_p0 lb e sig rawBody =
     (if truthy_str (STRIPE_WEBHOOK_SECRET e)
      then (if \<not> truthy_str (STRIPE_SECRET_KEY e) then Inl TypeError
            else constructEvent lb rawBody sig (the (STRIPE_WEBHOOK_SECRET e)))
      else JSON_parse lb rawBody)"

definition stripe_webhook_p0 :: "libs \<Rightarrow> env \<Rightarrow> upstream \<Rightarrow> clock \<Rightarrow> string option \<Rightarrow> string \<Rightarrow> world \<Rightarrow> response \<times> world" where
  "stripe_webhook_p0 lb e jap clk sig rawBody w =
     (case constructed_event_p0 lb e sig rawBody of
        Inl err \<Rightarrow> (RespError 400 err, w)
      | Inr event \<Rightarrow> stripe_event_p0 lb e jap clk event w)"

section \<open>The complete v3 backend: \<open>lib/orders.js\<close>, \<open>lib/jap-api.js\<close>, \<open>lib/payments.js\<close>, \<open>server.js\<close>\<close>

text \<open>
  Orders live in memory, in a \<open>Map\<close> from the order's UUID to the order object. The object
  is kept as its property list, since \<open>updateOrderStatus\<close> assigns whatever \<open>extra\<close> brings;
  a property can hold \<open>undefined\<close>.
\<close>

type_synonym js_object = "(string \<times> jsval) list"

definition get_prop :: "js_object \<Rightarrow> string \<Rightarrow> jsval" where
  "get_prop obj k = (case map_of obj k of None \<Rightarrow> None | Some v \<Rightarrow> v)"

text \<open>\<open>Object.assign(target, source)\<close>.\<close>

definition Object_assign :: "js_object \<Rightarrow> js_object \<Rightarrow> js_object" where
  "Object_assign target source = foldl (\<lambda>acc (k, v). obj_set acc k v) target source"

record state_v3 =
  orders :: "string \<rightharpoonup> js_object"
  dispatched :: "jap_request list"
  checkouts :: "js_object list"

text \<open>\<open>orders.get(key)\<close>: the keys are strings, any other value finds nothing.\<close>

fun Map_get :: "(string \<rightharpoonup> 'a) \<Rightarrow> jsval \<Rightarrow> 'a option" where
  "Map_get m (Some (JStr k)) = m k"
| "Map_get m key = None"

text \<open>
  \<open>createOrder\<close>. The UUID, the creation time and the price arithmetic
  \<open>parseFloat(((parseFloat(pricePerK) / 1000) * quantity).toFixed(2))\<close>, done in doubles, are
  given from outside. The arithmetic converts the rate and the quantity and throws,
  before anything is stored, when one of them cannot be converted.
\<close>

record order_input =
  in_serviceId :: jsval
  in_serviceName :: jsval
  in_link :: jsval
  in_quantity :: jsval
  in_email :: jsval
  in_pricePerK :: jsval
  in_paymentMethod :: string

definition createOrder :: "string \<Rightarrow> string \<Rightarrow> (jsval \<Rightarrow> jsval \<Rightarrow> rat option) \<Rightarrow> order_input \<Rightarrow> state_v3
    \<Rightarrow> (js_error + js_object) \<times> state_v3" where
  "createOrder uuid created total_of inp st =
     (if unconvertible (in_pricePerK inp) \<or> unconvertible (in_quantity inp) then (Inl TypeError, st)
      else
     (let ord = [(''id'', Some (JStr uuid)),
                 (''serviceId'', in_serviceId inp),
                 (''serviceName'', in_serviceName inp),
                 (''link'', in_link inp),
                 (''quantity'', in_quantity inp),
                 (''email'', in_email inp),
                 (''pricePerK'', in_pricePerK inp),
                 (''total'', Some (num_json (total_of (in_pricePerK inp) (in_quantity inp)))),
                 (''paymentMethod'', Some (JStr (in_paymentMethod inp))),
                 (''status'', Some (JStr ''pending'')),
                 (''japOrderId'', Some JNull),
                 (''createdAt'', Some (JStr created))]
      in (Inr ord, st\<lparr>orders := (orders st)(uuid \<mapsto> ord)\<rparr>)))"

definition getOrder :: "jsval \<Rightarrow> state_v3 \<Rightarrow> js_object option" where
  "getOrder orderId st = Map_get (orders st) orderId"

definition updateOrderStatus :: "jsval \<Rightarrow> string \<Rightarrow> js_object \<Rightarrow> state_v3 \<Rightarrow> js_object option \<times> state_v3" where
  "updateOrderStatus orderId status extra st =
     (case Map_get (orders st) orderId of
        None \<Rightarrow> (None, st)
      | Some ord \<Rightarrow>
          (let ord' = Object_assign (obj_set ord ''status'' (Some (JStr status))) extra
           in (Some ord', st\<lparr>orders := (orders st)(the_JStr orderId \<mapsto> ord')\<rparr>)))"

text \<open>
  The request body of \<open>lib/jap-api.js\<close> is a \<open>URLSearchParams\<close> built from the three values;
  building it converts each to a string and throws before the \<open>fetch\<close> when one cannot be
  converted.
\<close>

definition URLSearchParams_throws :: "jap_request \<Rightarrow> bool" where
  "URLSearchParams_throws req =
     (unconvertible (service req) \<or> unconvertible (link req) \<or> unconvertible (quantity req))"

text \<open>\<open>throw new Error(data.error)\<close>: the message is converted to a string first.\<close>

definition new_Error :: "jsval \<Rightarrow> js_error" where
  "new_Error message = (if unconvertible message then TypeError else Error (the message))"

text \<open>
  \<open>createJAPOrder\<close> of \<open>lib/jap-api.js\<close>: one request; a reply with a truthy \<open>error\<close> and every
  exception are thrown on to the caller; otherwise the reply's \<open>order\<close> comes back.
\<close>

definition createJAPOrder :: "upstream \<Rightarrow> jap_request \<Rightarrow> state_v3 \<Rightarrow> (js_error + jsval) \<times> state_v3" where
  "createJAPOrder jap req st =
     (if URLSearchParams_throws req then (Inl TypeError, st)
      else
        (case jap (length (dispatched st)) req of
           NetworkError \<Rightarrow> Inl FetchError
         | Reply JNull \<Rightarrow> Inl TypeError
         | Reply data \<Rightarrow>
             if truthy (own_prop data ''error'') then Inl (new_Error (own_prop data ''error''))
             else Inr (own_prop data ''order''),
         st\<lparr>dispatched := dispatched st @ [req]\<rparr>))"

definition reply_accepted :: "jap_reply \<Rightarrow> bool" where
  "reply_accepted r =
     (case r of NetworkError \<Rightarrow> False | Reply JNull \<Rightarrow> False
      | Reply data \<Rightarrow> \<not> truthy (own_prop data ''error''))"

definition order_request :: "js_object \<Rightarrow> jap_request" where
  "order_request ord =
     \<lparr>service = get_prop ord ''serviceId'', link = get_prop ord ''link'', quantity = get_prop ord ''quantity''\<rparr>"

definition processOrder :: "upstream \<Rightarrow> jsval \<Rightarrow> state_v3 \<Rightarrow> (js_error + jsval) \<times> state_v3" where
  "processOrder jap orderId st =
     (case Map_get (orders st) orderId of
        None \<Rightarrow> (Inl (Error (JStr ''Order not found'')), st)
      | Some ord \<Rightarrow>
          if \<not> strict_eq (get_prop ord ''status'') (Some (JStr ''paid''))
          then (Inl (Error (JStr ''Order not paid'')), st)
          else (case createJAPOrder jap (order_request ord) st of
                  (Inl err, st1) \<Rightarrow> (Inl err, st1)
                | (Inr japOrderId, st1) \<Rightarrow>
                    (Inr japOrderId,
                     snd (updateOrderStatus orderId ''processing'' [(''japOrderId'', japOrderId)] st1))))"


text \<open>
  What both webhook handlers of \<open>server.js\<close> do for a confirmed payment: mark the order
  paid, then process it, logging and dropping whatever \<open>processOrder\<close> throws.
\<close>

definition mark_paid_and_process :: "upstream \<Rightarrow> jsval \<Rightarrow> state_v3 \<Rightarrow> state_v3" where
  "mark_paid_and_process jap orderId st =
     snd (processOrder jap orderId (snd (updateOrderStatus orderId ''paid'' [] st)))"



definition nowpayments_webhook_v3 :: "upstream \<Rightarrow> json \<Rightarrow> state_v3 \<Rightarrow> response \<times> state_v3" where
  "nowpayments_webhook_v3 jap body st =
     (case member (Some body) ''payment_status'' of
        Inl err \<Rightarrow> (RespError 400 err, st)
      | Inr payment_status \<Rightarrow>
          if payment_complete payment_status
          then (Resp 200 (JObj [(''received'', JBool True)]),
                mark_paid_and_process jap (own_prop body ''order_id'') st)
          else (Resp 200 (JObj [(''received'', JBool True)]), st))"


section \<open>The service catalog: \<open>lib/services.js\<close> of v2 and of v3\<close>

text \<open>
  Both variants keep the last list they built in \<open>servicesCache\<close>, with the time it was
  stored, for five minutes.
\<close>

record 's catalog =
  servicesCache :: "'s list option"
  cacheTimestamp :: int

definition CACHE_DURATION :: int where
  "CACHE_DURATION = 5 * 60 * 1000"

text \<open>
  A service of v2 as \<open>filterAndRenameServices\<close> and the markup leave it. \<open>rate\<close>, \<open>min\<close> and \<open>max\<close>
  are numbers, \<open>NaN\<close> being \<open>None\<close>.
\<close>

record service =
  s_id :: jsval
  s_name :: string
  s_platform :: string
  s_type :: string
  s_description :: string
  s_rate :: "rat option"
  s_min :: "rat option"
  s_max :: "rat option"

text \<open>
  \<open>japApi.request\<close> of v2: the parsed reply, unless the \<open>fetch\<close> fails or the reply carries a
  truthy \<open>error\<close>; then it throws.
\<close>

definition jap_request_v2 :: "jap_reply \<Rightarrow> js_error + json" where
  "jap_request_v2 r =
     (case r of
        NetworkError \<Rightarrow> Inl FetchError
      | Reply JNull \<Rightarrow> Inl TypeError
      | Reply data \<Rightarrow>
          if truthy (own_prop data ''error'') then Inl (new_Error (own_prop data ''error''))
          else Inr data)"

text \<open>
  \<open>ServicesManager.getServices\<close> of v2. \<open>transform\<close> stands for \<open>filterAndRenameServices\<close> followed
  by the markup of every rate, double arithmetic and a locale-dependent sort; it throws
  on a reply that is not an array. \<open>now\<close> is the clock at the freshness test, \<open>later\<close> the
  clock when the new list is stored.
\<close>

definition getServices_v2 :: "(json \<Rightarrow> js_error + service list) \<Rightarrow> int \<Rightarrow> int \<Rightarrow> jap_reply \<Rightarrow> bool
    \<Rightarrow> service catalog \<Rightarrow> (js_error + service list) \<times> service catalog" where
  "getServices_v2 transform now later fetched forceRefresh cat =
     (if \<not> forceRefresh \<and> servicesCache cat \<noteq> None \<and> now - cacheTimestamp cat < CACHE_DURATION
      then (Inr (the (servicesCache cat)), cat)
      else (case (case jap_request_v2 fetched of Inl err \<Rightarrow> Inl err | Inr japServices \<Rightarrow> transform japServices) of
              Inr services \<Rightarrow> (Inr services, \<lparr>servicesCache = Some services, cacheTimestamp = later\<rparr>)
            | Inl err \<Rightarrow>
                (case servicesCache cat of
                   Some cached \<Rightarrow> (Inr cached, cat)
                 | None \<Rightarrow> (Inl err, cat))))"

text \<open>The \<open>try\<close> block of \<open>getServices\<close> ends in the \<open>catch\<close>: the request or the transform threw.\<close>

definition fetch_failed_v2 :: "(json \<Rightarrow> js_error + service list) \<Rightarrow> jap_reply \<Rightarrow> bool" where
  "fetch_failed_v2 transform fetched =
     (case jap_request_v2 fetched of Inl err \<Rightarrow> True | Inr japServices \<Rightarrow> isl (transform japServices))"

text \<open>The curated list of v2 (\<open>lib/curated-services.js\<close>), by service id.\<close>

definition ALLOWED_SERVICE_IDS :: "rat list" where
  "ALLOWED_SERVICE_IDS =
     [1761, 5882, 5883, 5951, 6073, 6074, 6075, 6384, 7444, 7445, 7446, 8753, 9132, 10066]"

definition isServiceAllowed :: "libs \<Rightarrow> jsval \<Rightarrow> bool" where
  "isServiceAllowed lb serviceId =
     (case parseInt lb serviceId of None \<Rightarrow> False | Some n \<Rightarrow> n \<in> set ALLOWED_SERVICE_IDS)"

definition getServiceById_v2 :: "libs \<Rightarrow> (json \<Rightarrow> js_error + service list) \<Rightarrow> int \<Rightarrow> int \<Rightarrow> jap_reply
    \<Rightarrow> jsval \<Rightarrow> service catalog \<Rightarrow> (js_error + service option) \<times> service catalog" where
  "getServiceById_v2 lb transform now later fetched serviceId cat =
     (if unconvertible serviceId then (Inl TypeError, cat)
      else if \<not> isServiceAllowed lb serviceId then (Inr None, cat)
      else (case getServices_v2 transform now later fetched False cat of
              (Inl err, cat') \<Rightarrow> (Inl err, cat')
            | (Inr services, cat') \<Rightarrow>
                (Inr (find (\<lambda>s. strict_eq (s_id s) (Some (JNum (the (parseInt lb serviceId))))) services),
                 cat')))"

text \<open>
  v3. \<open>fetchJAPServices\<close> never throws: anything but an array, a failed request included,
  is the empty list.
\<close>

definition fetchJAPServices :: "jap_reply \<Rightarrow> json list" where
  "fetchJAPServices r = (case r of Reply (JArr xs) \<Rightarrow> xs | _ \<Rightarrow> [])"

text \<open>The curated table of v3 in the order \<open>Object.entries\<close> lists it, and the fallback list.\<close>

definition CURATED_SERVICES :: "(rat \<times> string \<times> string \<times> string \<times> string) list" where
  "CURATED_SERVICES =
     [(1761, ''Likes - Elite'', ''instagram'', ''likes'', ''Top quality''),
      (5951, ''Followers - Elite'', ''instagram'', ''followers'', ''Premium USA followers''),
      (6073, ''Likes - Premium'', ''instagram'', ''likes'', ''USA/EU exclusive''),
      (6074, ''Followers - Premium'', ''instagram'', ''followers'', ''USA/EU exclusive''),
      (7444, ''Views - Premium'', ''instagram'', ''views'', ''Fast views''),
      (7445, ''Likes - Standard'', ''instagram'', ''likes'', ''Fast delivery''),
      (7446, ''Followers - Standard'', ''instagram'', ''followers'', ''Fast delivery'')]"

definition getCuratedFallback :: "json list" where
  "getCuratedFallback =
     map (\<lambda>(sid, name, platform, type, description).
            JObj [(''id'', JNum sid), (''name'', JStr name), (''platform'', JStr platform),
                  (''type'', JStr type), (''description'', JStr description),
                  (''rate'', JStr ''12.99''), (''min'', JNum 100), (''max'', JNum 10000)])
         CURATED_SERVICES"

text \<open>
  \<open>getServices\<close> of v3. \<open>curate\<close> stands for the \<open>filter\<close> on \<open>isCurated\<close> and the \<open>map\<close> that renames
  each service and marks up its rate (\<open>toFixed\<close> on a double); it throws on an element that
  is \<open>null\<close>.
\<close>

definition getServices_v3 :: "(json list \<Rightarrow> js_error + json list) \<Rightarrow> int \<Rightarrow> int \<Rightarrow> jap_reply
    \<Rightarrow> json catalog \<Rightarrow> json list \<times> json catalog" where
  "getServices_v3 curate now later fetched cat =
     (if servicesCache cat \<noteq> None \<and> now - cacheTimestamp cat < CACHE_DURATION
      then (the (servicesCache cat), cat)
      else (let japServices = fetchJAPServices fetched
            in if japServices = [] then (getCuratedFallback, cat)
               else (case curate japServices of
                       Inl err \<Rightarrow> (getCuratedFallback, cat)
                     | Inr curatedServices \<Rightarrow>
                         if curatedServices = [] then (getCuratedFallback, cat)
                         else (curatedServices,
                               \<lparr>servicesCache = Some curatedServices, cacheTimestamp = later\<rparr>))))"

text \<open>
  \<open>getServiceById\<close> of v3: \<open>services.find(s => s.id === parseInt(serviceId))\<close>. The elements of
  the list are the objects \<open>getServices\<close> built; \<open>parseInt\<close> runs once per element looked at.
\<close>

definition getServiceById_v3 :: "libs \<Rightarrow> (json list \<Rightarrow> js_error + json list) \<Rightarrow> int \<Rightarrow> int \<Rightarrow> jap_reply
    \<Rightarrow> jsval \<Rightarrow> json catalog \<Rightarrow> (js_error + jsval) \<times> json catalog" where
  "getServiceById_v3 lb curate now later fetched serviceId cat =
     (let (services, cat') = getServices_v3 curate now later fetched cat
      in (if services \<noteq> [] \<and> unconvertible serviceId then Inl TypeError
          else Inr (case parseInt lb serviceId of
                      None \<Rightarrow> None
                    | Some n \<Rightarrow> find (\<lambda>s. strict_eq (own_prop s ''id'') (Some (JNum n))) services),
          cat'))"

section \<open>Creating orders and checkouts\<close>

text \<open>
  \<open>a < b\<close> on numbers: false as soon as one side is \<open>NaN\<close>. A request value is compared
  through \<open>ToNumber\<close>, which the engine supplies for strings, arrays and objects; on a
  value that cannot be converted the comparison throws, which the callers test first.
\<close>

definition js_less :: "rat option \<Rightarrow> rat option \<Rightarrow> bool" where
  "js_less a b = (case a of None \<Rightarrow> False | Some x \<Rightarrow> (case b of None \<Rightarrow> False | Some y \<Rightarrow> x < y))"

fun ToNumber :: "(json \<Rightarrow> rat option) \<Rightarrow> jsval \<Rightarrow> rat option" where
  "ToNumber conv None = None"
| "ToNumber conv (Some JNull) = Some 0"
| "ToNumber conv (Some (JBool b)) = Some (if b then 1 else 0)"
| "ToNumber conv (Some (JNum r)) = Some r"
| "ToNumber conv (Some v) = conv v"

text \<open>
  What the order and checkout code of v2 takes from elsewhere: the catalog transform,
  the link patterns, the price arithmetic in doubles, the generated internal id, the
  key \<open>order.id.toString()\<close>, and the call that builds and creates the Stripe session.
\<close>

record deps_v2 =
  transform :: "json \<Rightarrow> js_error + service list"
  coerce :: "json \<Rightarrow> rat option"
  validateLink :: "jsval \<Rightarrow> string \<Rightarrow> bool"
  calculateTotal :: "rat option \<Rightarrow> jsval \<Rightarrow> rat option"
  getJapCost :: "rat option \<Rightarrow> jsval \<Rightarrow> rat option"
  profit_of :: "rat option \<Rightarrow> rat option \<Rightarrow> rat option"
  generateInternalId :: string
  id_toString :: "jsval \<Rightarrow> js_error + string"
  sessions_create :: "service \<Rightarrow> js_object \<Rightarrow> js_error + js_object"

record order_data =
  od_serviceId :: jsval
  od_link :: jsval
  od_quantity :: jsval
  od_email :: jsval
  od_paymentId :: jsval

record state_v2 =
  services_v2 :: "service catalog"
  orders_v2 :: "string \<rightharpoonup> js_object"
  jap_orders :: "jap_request list"
  stripe_sessions :: "js_object list"

definition quantity_out_of_range :: "deps_v2 \<Rightarrow> jsval \<Rightarrow> service \<Rightarrow> bool" where
  "quantity_out_of_range d qty svc =
     (js_less (ToNumber (coerce d) qty) (s_min svc) \<or> js_less (s_max svc) (ToNumber (coerce d) qty))"

text \<open>\<open>OrdersManager.createOrder\<close> of v2 (\<open>lib/orders.js\<close>).\<close>

definition createOrder_v2 :: "libs \<Rightarrow> deps_v2 \<Rightarrow> upstream \<Rightarrow> int \<Rightarrow> int \<Rightarrow> jap_reply \<Rightarrow> string \<Rightarrow> order_data
    \<Rightarrow> state_v2 \<Rightarrow> (js_error + js_object) \<times> state_v2" where
  "createOrder_v2 lb d jap now later fetched created od st =
     (case getServiceById_v2 lb (transform d) now later fetched (od_serviceId od) (services_v2 st) of
        (Inl err, cat) \<Rightarrow> (Inl err, st\<lparr>services_v2 := cat\<rparr>)
      | (Inr None, cat) \<Rightarrow> (Inl (Error (JStr ''Service not found'')), st\<lparr>services_v2 := cat\<rparr>)
      | (Inr (Some svc), cat) \<Rightarrow>
          if unconvertible (od_quantity od) then (Inl TypeError, st\<lparr>services_v2 := cat\<rparr>)
          else if quantity_out_of_range d (od_quantity od) svc
          then (Inl (QuantityOutOfRange (s_min svc) (s_max svc)), st\<lparr>services_v2 := cat\<rparr>)
          else if unconvertible (od_link od) then (Inl TypeError, st\<lparr>services_v2 := cat\<rparr>)
          else if \<not> validateLink d (od_link od) (s_platform svc)
          then (Inl (Error (JStr ''Invalid link format for this platform'')), st\<lparr>services_v2 := cat\<rparr>)
          else
            (let total = calculateTotal d (s_rate svc) (od_quantity od);
                 cost = getJapCost d (s_rate svc) (od_quantity od);
                 profit = profit_of d total cost;
                 req = \<lparr>service = od_serviceId od, link = od_link od, quantity = od_quantity od\<rparr>;
                 st1 = st\<lparr>services_v2 := cat, jap_orders := jap_orders st @ [req]\<rparr>
             in case jap_request_v2 (jap (length (jap_orders st)) req) of
                  Inl err \<Rightarrow> (Inl err, st1)
                | Inr japResponse \<Rightarrow>
                    (let ord = [(''id'', own_prop japResponse ''order''),
                                (''internalId'', Some (JStr (generateInternalId d))),
                                (''serviceId'', od_serviceId od),
                                (''serviceName'', Some (JStr (s_name svc))),
                                (''platform'', Some (JStr (s_platform svc))),
                                (''link'', od_link od),
                                (''quantity'', od_quantity od),
                                (''total'', Some (num_json total)),
                                (''cost'', Some (num_json cost)),
                                (''profit'', Some (num_json profit)),
                                (''email'', Some (if truthy (od_email od) then the (od_email od) else JNull)),
                                (''paymentId'', Some (if truthy (od_paymentId od) then the (od_paymentId od) else JNull)),
                                (''status'', Some (JStr ''pending'')),
                                (''createdAt'', Some (JStr created))]
                     in case id_toString d (own_prop japResponse ''order'') of
                          Inl err \<Rightarrow> (Inl err, st1)
                        | Inr key \<Rightarrow>
                            (Inr [(''orderId'', own_prop japResponse ''order''),
                                  (''internalId'', Some (JStr (generateInternalId d))),
                                  (''service'', Some (JStr (s_name svc))),
                                  (''quantity'', od_quantity od),
                                  (''total'', Some (num_json total)),
                                  (''status'', Some (JStr ''pending'')),
                                  (''message'', Some (JStr ''Order placed successfully!''))],
                             st1\<lparr>orders_v2 := (orders_v2 st1)(key \<mapsto> ord, generateInternalId d \<mapsto> ord)\<rparr>))))"

text \<open>\<open>PaymentHandler.createCheckoutSession\<close> of v2 (\<open>lib/payments.js\<close>).\<close>

definition createCheckoutSession_v2 :: "libs \<Rightarrow> deps_v2 \<Rightarrow> int \<Rightarrow> int \<Rightarrow> jap_reply \<Rightarrow> order_data
    \<Rightarrow> state_v2 \<Rightarrow> (js_error + js_object) \<times> state_v2" where
  "createCheckoutSession_v2 lb d now later fetched od st =
     (case getServiceById_v2 lb (transform d) now later fetched (od_serviceId od) (services_v2 st) of
        (Inl err, cat) \<Rightarrow> (Inl err, st\<lparr>services_v2 := cat\<rparr>)
      | (Inr None, cat) \<Rightarrow> (Inl (Error (JStr ''Service not found'')), st\<lparr>services_v2 := cat\<rparr>)
      | (Inr (Some svc), cat) \<Rightarrow>
          if unconvertible (od_quantity od) then (Inl TypeError, st\<lparr>services_v2 := cat\<rparr>)
          else if quantity_out_of_range d (od_quantity od) svc
          then (Inl (QuantityOutOfRange (s_min svc) (s_max svc)), st\<lparr>services_v2 := cat\<rparr>)
          else
            (let request = [(''serviceId'', od_serviceId od), (''link'', od_link od),
                            (''quantity'', od_quantity od), (''email'', od_email od),
                            (''total'', Some (num_json (calculateTotal d (s_rate svc) (od_quantity od))))]
             in case sessions_create d svc request of
                  Inl err \<Rightarrow> (Inl err, st\<lparr>services_v2 := cat\<rparr>)
                | Inr session \<Rightarrow>
                    (Inr [(''sessionId'', get_prop session ''id''), (''url'', get_prop session ''url'')],
                     st\<lparr>services_v2 := cat, stripe_sessions := stripe_sessions st @ [session]\<rparr>)))"

text \<open>
  \<open>validateOrderInput\<close> of v5 (\<open>server.js\<close>). \<open>email_ok\<close> is the test of the e-mail pattern;
  the length of the link is counted in characters of the model's strings. The pattern
  test and the comparisons convert their operand and throw when it cannot be converted
  (\<open>validateOrderInput_throws\<close>); the error list is what the function returns otherwise.
\<close>

definition validateOrderInput_throws :: "json \<Rightarrow> bool" where
  "validateOrderInput_throws body =
     (unconvertible (own_prop body ''email'')
      \<or> unconvertible (own_prop body ''quantity'')
      \<or> unconvertible (own_prop body ''amount''))"

definition validateOrderInput :: "(json \<Rightarrow> rat option) \<Rightarrow> (jsval \<Rightarrow> bool) \<Rightarrow> json \<Rightarrow> string list" where
  "validateOrderInput conv email_ok body =
     (if \<not> truthy (own_prop body ''link'') \<or> \<not> is_JStr (own_prop body ''link'')
         \<or> length (the_JStr (own_prop body ''link'')) < 5
      then [''Invalid link''] else [])
     @ (if \<not> truthy (own_prop body ''email'') \<or> \<not> email_ok (own_prop body ''email'')
        then [''Invalid email''] else [])
     @ (if \<not> truthy (own_prop body ''quantity'')
           \<or> js_less (ToNumber conv (own_prop body ''quantity'')) (Some 1)
           \<or> js_less (Some 1000000) (ToNumber conv (own_prop body ''quantity''))
        then [''Invalid quantity''] else [])
     @ (if \<not> truthy (own_prop body ''serviceId'') \<or> \<not> is_JNum (own_prop body ''serviceId'')
        then [''Invalid service ID''] else [])
     @ (if \<not> truthy (own_prop body ''amount'')
           \<or> js_less (ToNumber conv (own_prop body ''amount'')) (Some (1 / 2))
           \<or> js_less (Some 50000) (ToNumber conv (own_prop body ''amount''))
        then [''Invalid amount''] else [])"

text \<open>
  \<open>POST /api/order\<close> of v5: validation, then the Stripe session. \<open>create_session\<close> builds the
  session request from the body and calls Stripe; the sessions created are recorded.
\<close>

definition api_order_v5 :: "(json \<Rightarrow> rat option) \<Rightarrow> (jsval \<Rightarrow> bool) \<Rightarrow> (json \<Rightarrow> js_error + js_object)
    \<Rightarrow> env \<Rightarrow> json \<Rightarrow> js_object list \<Rightarrow> response \<times> js_object list" where
  "api_order_v5 conv email_ok create_session e body sessions =
     (if body = JNull \<or> validateOrderInput_throws body
      then (Resp 500 (JObj [(''error'', JStr ''Payment initialization failed'')]), sessions)
      else if validateOrderInput conv email_ok body \<noteq> []
      then (Resp 400 (JObj [(''error'', JStr (join_with '', '' (validateOrderInput conv email_ok body)))]),
            sessions)
      else if \<not> truthy_str (STRIPE_SECRET_KEY e)
      then (Resp 500 (JObj [(''error'', JStr ''Payment system not configured'')]), sessions)
      else (case create_session body of
              Inl err \<Rightarrow> (Resp 500 (JObj [(''error'', JStr ''Payment initialization failed'')]), sessions)
            | Inr session \<Rightarrow>
                (Resp 200 (JObj (file_object [(''url'', get_prop session ''url''),
                                              (''sessionId'', get_prop session ''id'')])),
                 sessions @ [session])))"

text \<open>
  \<open>POST /api/order\<close> of the complete v3 backend (\<open>server.js\<close>). The order is created and stored
  before the Stripe checkout is; \<open>createStripeCheckout\<close> builds the session request and calls
  Stripe.
\<close>

record deps_v3 =
  curate :: "json list \<Rightarrow> js_error + json list"
  total_of :: "jsval \<Rightarrow> jsval \<Rightarrow> rat option"
  uuidv4 :: string
  created_at :: string
  createStripeCheckout :: "js_object \<Rightarrow> js_error + js_object"

definition api_order_v3 :: "libs \<Rightarrow> deps_v3 \<Rightarrow> int \<Rightarrow> int \<Rightarrow> jap_reply \<Rightarrow> json
    \<Rightarrow> json catalog \<times> state_v3 \<Rightarrow> response \<times> json catalog \<times> state_v3" where
  "api_order_v3 lb d now later fetched body cs =
     (let (cat, st) = cs
      in if body = JNull then (RespError 500 TypeError, cat, st)
         else if \<not> truthy (own_prop body ''serviceId'') \<or> \<not> truthy (own_prop body ''link'')
                 \<or> \<not> truthy (own_prop body ''quantity'') \<or> \<not> truthy (own_prop body ''email'')
         then (Resp 400 (JObj [(''error'', JStr ''Missing required fields'')]), cat, st)
         else
           (case getServiceById_v3 lb (curate d) now later fetched (own_prop body ''serviceId'') cat of
              (Inl err, cat') \<Rightarrow> (RespError 500 err, cat', st)
            | (Inr svc, cat') \<Rightarrow>
                if \<not> truthy svc then (Resp 404 (JObj [(''error'', JStr ''Service not found'')]), cat', st)
                else
                  (case createOrder (uuidv4 d) (created_at d) (total_of d)
                          \<lparr>in_serviceId = own_prop body ''serviceId'',
                           in_serviceName = own_prop (the svc) ''name'',
                           in_link = own_prop body ''link'',
                           in_quantity = own_prop body ''quantity'',
                           in_email = own_prop body ''email'',
                           in_pricePerK = own_prop (the svc) ''rate'',
                           in_paymentMethod = ''stripe''\<rparr> st of
                     (Inl err, st1) \<Rightarrow> (RespError 500 err, cat', st1)
                   | (Inr ord, st1) \<Rightarrow>
                       (case createStripeCheckout d
                               [(''orderId'', get_prop ord ''id''), (''amount'', get_prop ord ''total''),
                                (''serviceName'', own_prop (the svc) ''name''),
                                (''quantity'', own_prop body ''quantity''),
                                (''email'', own_prop body ''email'')] of
                          Inl err \<Rightarrow> (RespError 500 err, cat', st1)
                        | Inr session \<Rightarrow>
                            (Resp 200 (JObj (file_object [(''orderId'', get_prop ord ''id''),
                                                          (''checkoutUrl'', get_prop session ''url'')])),
                             cat', st1\<lparr>checkouts := checkouts st1 @ [session]\<rparr>)))))"




section \<open>Properties of the serialization\<close>

lemma map_of_pruned_members:
  "\<forall>(k, v) \<in> set kvs. f (g v) = f v \<Longrightarrow> p \<in> S \<Longrightarrow>
     map_of (map (\<lambda>(k, v). (k, f v)) (filter (\<lambda>(k, v). k \<in> S) (map (\<lambda>(k, v). (k, g v)) kvs))) p
       = map_of (map (\<lambda>(k, v). (k, f v)) kvs) p"
  by (induction kvs) auto

lemma serialize_prune:
  "set ks' \<subseteq> set ks \<Longrightarrow> serialize rt (Some ks') (prune ks v) = serialize rt (Some ks') v"
proof (induction v)
  case (JArr xs)
  then show ?case by (simp cong: map_cong)
next
  case (JObj kvs)
  let ?f = "serialize rt (Some ks')"
  have IH: "\<forall>(k, v) \<in> set kvs. ?f (prune ks v) = ?f v"
    using JObj by fastforce
  have "replacer_member (map (\<lambda>(k, v). (k, ?f v))
          (filter (\<lambda>(k, v). k \<in> set ks) (map (\<lambda>(k, v). (k, prune ks v)) kvs))) p
    = replacer_member (map (\<lambda>(k, v). (k, ?f v)) kvs) p" if "p \<in> set ks'" for p
  proof -
    from that JObj.prems have "p \<in> set ks" by blast
    from map_of_pruned_members [OF IH this] show ?thesis
      unfolding replacer_member_def by simp
  qed
  then show ?case by (simp cong: map_cong)
qed simp_all

lemma filter_own_keys:
  "filter (\<lambda>(k, v). k \<in> set (map fst kvs)) (map (\<lambda>(k, v). (k, f v)) kvs) = map (\<lambda>(k, v). (k, f v)) kvs"
  by (rule filter_True) force

lemma Object_keys_signed_part: "Object_keys (signed_part p) = Object_keys p"
proof (cases p)
  case (JObj kvs)
  have "map fst (map (\<lambda>(k, v). (k, prune (map fst kvs) v)) kvs) = map fst kvs"
    by (induction kvs) auto
  with JObj show ?thesis
    by (simp add: signed_part_def filter_own_keys del: set_map)
qed (simp_all add: signed_part_def)

lemma stringify_signed_part:
  "Object_keys p = Some ks \<Longrightarrow>
     JSON_stringify rt (signed_part p) (Some (sort ks)) = JSON_stringify rt p (Some (sort ks))"
  by (simp add: JSON_stringify_def signed_part_def serialize_prune)

text \<open>
  C10. \<open>verifyIPNSignature\<close> signs \<open>JSON.stringify(payload, Object.keys(payload).sort())\<close>.
  The sorted top-level keys act as the property list of every nested object too, so the
  signed text is that of the payload with all nested properties removed whose key is
  not a top-level key (\<open>signed_part\<close>). Two payloads that agree once these properties
  are removed, in particular two that differ only in the values of such properties,
  get the same signed text and the same digest, and both variants of the function
  return the same answer for both payloads, whatever the secret and the signature.
\<close>

theorem nested_only_fields_not_signed:
  assumes "signed_part p = signed_part q"
  shows "Object_keys p = Object_keys q
       \<and> (\<forall>ks. Object_keys p = Some ks \<longrightarrow>
            JSON_stringify rt p (Some (sort ks)) = JSON_stringify rt (signed_part p) (Some (sort ks))
          \<and> hmac_sha512_hex rt key (JSON_stringify rt p (Some (sort ks)))
              = hmac_sha512_hex rt key (JSON_stringify rt q (Some (sort ks))))
       \<and> verifyIPNSignature rt secret p signature = verifyIPNSignature rt secret q signature
       \<and> verifyIPNSignature_v3 rt secret p signature = verifyIPNSignature_v3 rt secret q signature"
proof -
  have keys: "Object_keys p = Object_keys q"
    using assms Object_keys_signed_part [of p] Object_keys_signed_part [of q] by simp
  have str: "JSON_stringify rt p (Some (sort ks)) = JSON_stringify rt q (Some (sort ks))"
    if "Object_keys p = Some ks" for ks
    using that keys assms stringify_signed_part [of p ks rt] stringify_signed_part [of q ks rt]
    by simp
  show ?thesis
    using keys str
    by (auto simp: verifyIPNSignature_def verifyIPNSignature_v3_def stringify_signed_part
             split: option.splits)
qed

theorem nested_only_fields_not_signed_witness:
  "signed_part (JObj [(''payment_status'', JStr ''finished''), (''order_id'', JStr ''A1''),
         (''fee'', JObj [(''currency'', JStr ''btc''), (''order_id'', JStr ''A1'')])])
     = signed_part (JObj [(''payment_status'', JStr ''finished''), (''order_id'', JStr ''A1''),
         (''fee'', JObj [(''currency'', JStr ''eth''), (''order_id'', JStr ''A1'')])])
   \<and> (JObj [(''payment_status'', JStr ''finished''), (''order_id'', JStr ''A1''),
         (''fee'', JObj [(''currency'', JStr ''btc''), (''order_id'', JStr ''A1'')])])
     \<noteq> (JObj [(''payment_status'', JStr ''finished''), (''order_id'', JStr ''A1''),
         (''fee'', JObj [(''currency'', JStr ''eth''), (''order_id'', JStr ''A1'')])])
   \<and> Object_keys (JObj [(''payment_status'', JStr ''finished''), (''order_id'', JStr ''A1''),
         (''fee'', JObj [(''currency'', JStr ''btc''), (''order_id'', JStr ''A1'')])]) = Some [''payment_status'', ''order_id'', ''fee'']
   \<and> hmac_sha512_hex \<lparr>hmac_sha512_hex = (\<lambda>k m. k @ m), number_toString = (\<lambda>r. ''0'')\<rparr> ''s3''
         (JSON_stringify \<lparr>hmac_sha512_hex = (\<lambda>k m. k @ m), number_toString = (\<lambda>r. ''0'')\<rparr> (JObj [(''payment_status'', JStr ''finished''), (''order_id'', JStr ''A1''),
         (''fee'', JObj [(''currency'', JStr ''btc''), (''order_id'', JStr ''A1'')])]) (Some (sort [''payment_status'', ''order_id'', ''fee''])))
     = hmac_sha512_hex \<lparr>hmac_sha512_hex = (\<lambda>k m. k @ m), number_toString = (\<lambda>r. ''0'')\<rparr> ''s3''
         (JSON_stringify \<lparr>hmac_sha512_hex = (\<lambda>k m. k @ m), number_toString = (\<lambda>r. ''0'')\<rparr> (JObj [(''payment_status'', JStr ''finished''), (''order_id'', JStr ''A1''),
         (''fee'', JObj [(''currency'', JStr ''eth''), (''order_id'', JStr ''A1'')])]) (Some (sort [''payment_status'', ''order_id'', ''fee''])))
   \<and> verifyIPNSignature \<lparr>hmac_sha512_hex = (\<lambda>k m. k @ m), number_toString = (\<lambda>r. ''0'')\<rparr> (Some ''s3'')
       (JObj [(''payment_status'', JStr ''finished''), (''order_id'', JStr ''A1''),
         (''fee'', JObj [(''currency'', JStr ''btc''), (''order_id'', JStr ''A1'')])]) (Some ''sig'')
     = verifyIPNSignature \<lparr>hmac_sha512_hex = (\<lambda>k m. k @ m), number_toString = (\<lambda>r. ''0'')\<rparr> (Some ''s3'')
       (JObj [(''payment_status'', JStr ''finished''), (''order_id'', JStr ''A1''),
         (''fee'', JObj [(''currency'', JStr ''eth''), (''order_id'', JStr ''A1'')])]) (Some ''sig'')"
proof -
  let ?p = "(JObj [(''payment_status'', JStr ''finished''), (''order_id'', JStr ''A1''),
         (''fee'', JObj [(''currency'', JStr ''btc''), (''order_id'', JStr ''A1'')])])"
  let ?q = "(JObj [(''payment_status'', JStr ''finished''), (''order_id'', JStr ''A1''),
         (''fee'', JObj [(''currency'', JStr ''eth''), (''order_id'', JStr ''A1'')])])"
  let ?rt = "\<lparr>hmac_sha512_hex = (\<lambda>k m. k @ m), number_toString = (\<lambda>r. ''0'')\<rparr>"
  have h: "signed_part ?p = signed_part ?q"
    by (simp add: signed_part_def)
  have ne: "?p \<noteq> ?q" by simp
  have k: "Object_keys ?p = Some [''payment_status'', ''order_id'', ''fee'']" by simp
  note t = nested_only_fields_not_signed [OF h, where rt = ?rt and key = "''s3''" and secret = "Some ''s3''"
      and signature = "Some ''sig''"]
  from t k have m: "hmac_sha512_hex ?rt ''s3'' (JSON_stringify ?rt ?p (Some (sort [''payment_status'', ''order_id'', ''fee''])))
     = hmac_sha512_hex ?rt ''s3'' (JSON_stringify ?rt ?q (Some (sort [''payment_status'', ''order_id'', ''fee''])))"
    by blast
  from t have v: "verifyIPNSignature ?rt (Some ''s3'') ?p (Some ''sig'')
     = verifyIPNSignature ?rt (Some ''s3'') ?q (Some ''sig'')"
    by blast
  from h ne k m v show ?thesis by blast
qed

section \<open>The signature checks of the webhooks\<close>

lemma ipn_check_no_header: "ipn_signature_check rt e None body = Inr True"
  by (simp add: ipn_signature_check_def truthy_str_def)

lemma ipn_check_expected:
  "truthy_str (NOWPAYMENTS_IPN_SECRET e) \<Longrightarrow> Object_keys body = Some ks \<Longrightarrow>
   ipn_signature_check rt e (Some (expectedSig rt (the (NOWPAYMENTS_IPN_SECRET e)) body ks)) body = Inr True"
  by (simp add: ipn_signature_check_def truthy_str_def)

lemma foldl_obj_set_append:
  "\<forall>k \<in> set xs. array_index k = None \<and> k \<noteq> ''__proto__'' \<and> own_prop body k \<noteq> None \<Longrightarrow>
   distinct xs \<Longrightarrow> set xs \<inter> fst ` set acc = {} \<Longrightarrow>
   foldl (\<lambda>acc key. case own_prop body key of None \<Rightarrow> acc | Some v \<Rightarrow> obj_set acc key v) acc xs
     = acc @ map (\<lambda>k. (k, the (own_prop body k))) xs"
proof (induction xs arbitrary: acc)
  case Nil
  then show ?case by simp
next
  case (Cons x xs)
  from Cons.prems obtain v where v: "own_prop body x = Some v" by auto
  have step: "obj_set acc x v = acc @ [(x, v)]"
    using Cons.prems by (auto simp: obj_set_def)
  have "set xs \<inter> fst ` set (acc @ [(x, v)]) = {}"
    using Cons.prems by auto
  with Cons.IH [of "acc @ [(x, v)]"] Cons.prems v step show ?case by simp
qed

lemma sortedParams_sorted_keys:
  assumes "distinct (map fst kvs)"
    and "\<forall>k \<in> set (map fst kvs). array_index k = None \<and> k \<noteq> ''__proto__''"
  shows "sortedParams (JObj kvs) (map fst kvs)
           = JObj (map (\<lambda>k. (k, the (map_of kvs k))) (sort (map fst kvs)))"
proof -
  have "\<forall>k \<in> set (sort (map fst kvs)).
          array_index k = None \<and> k \<noteq> ''__proto__'' \<and> own_prop (JObj kvs) k \<noteq> None"
    using assms(2) by (auto simp: map_of_eq_None_iff image_iff)
  moreover have "distinct (sort (map fst kvs))" using assms(1) by simp
  ultimately show ?thesis
    unfolding sortedParams_def
    using foldl_obj_set_append [of "sort (map fst kvs)" "JObj kvs" "[]"] by simp
qed

text \<open>
  C4 (as the code has it). In the NOWPayments handler of v5 the check is made when an
  IPN secret is configured and the request carries a non-empty \<open>x-nowpayments-sig\<close>
  header: the body is rebuilt with its keys inserted in sorted order, serialized, and
  its HMAC-SHA512 under the secret is compared with the header. The request goes on to
  the event handling exactly when the two are equal; otherwise the answer is
  \<open>400 Invalid signature\<close> and nothing else has happened. When no secret is configured
  or the header is missing or empty, no check is made: every request goes on to the
  event handling. \<open>verifyIPNSignature\<close> of the v3 backend answers whether the signature
  equals the HMAC (key \<open>secret || ''\<close>) of the payload serialized with its sorted keys as
  replacer. For an object whose keys are neither array indices nor \<open>__proto__\<close> the rebuilt
  body lists the same properties in lexicographic key order. (The body is any JSON
  value but \<open>null\<close>.)
\<close>

theorem ipn_signature_checked_when_present:
  assumes "truthy_str (NOWPAYMENTS_IPN_SECRET e)" and "truthy_str receivedSig"
    and "Object_keys body = Some ks"
  shows "nowpayments_webhook_v5 rt e receivedSig body w =
           (if the receivedSig = hmac_sha512_hex rt (the (NOWPAYMENTS_IPN_SECRET e))
                                   (JSON_stringify rt (sortedParams body ks) None)
            then nowpayments_event_v5 e body w
            else (Resp 400 (JObj [(''error'', JStr ''Invalid signature'')]), w))
       \<and> (\<forall>e' sig' body' w'. \<not> (truthy_str (NOWPAYMENTS_IPN_SECRET e') \<and> truthy_str sig') \<longrightarrow>
            nowpayments_webhook_v5 rt e' sig' body' w' = nowpayments_event_v5 e' body' w')
       \<and> verifyIPNSignature_v3 rt secret body signature =
           Inr (signature = Some (hmac_sha512_hex rt (if truthy_str secret then the secret else [])
                                   (JSON_stringify rt body (Some (sort ks)))))
       \<and> (\<forall>kvs. body = JObj kvs \<and> distinct ks
              \<and> (\<forall>k \<in> set ks. array_index k = None \<and> k \<noteq> ''__proto__'') \<longrightarrow>
            sortedParams body ks = JObj (map (\<lambda>k. (k, the (map_of kvs k))) (sort ks)))"
proof -
  have a: "nowpayments_webhook_v5 rt e receivedSig body w =
           (if the receivedSig = hmac_sha512_hex rt (the (NOWPAYMENTS_IPN_SECRET e))
                                   (JSON_stringify rt (sortedParams body ks) None)
            then nowpayments_event_v5 e body w
            else (Resp 400 (JObj [(''error'', JStr ''Invalid signature'')]), w))"
    using assms by (simp add: nowpayments_webhook_v5_def ipn_signature_check_def expectedSig_def)
  have n: "nowpayments_webhook_v5 rt e' sig' body' w' = nowpayments_event_v5 e' body' w'"
    if "\<not> (truthy_str (NOWPAYMENTS_IPN_SECRET e') \<and> truthy_str sig')" for e' sig' body' w'
    using that by (auto simp: nowpayments_webhook_v5_def ipn_signature_check_def)
  have b: "verifyIPNSignature_v3 rt secret body signature =
           Inr (signature = Some (hmac_sha512_hex rt (if truthy_str secret then the secret else [])
                                   (JSON_stringify rt body (Some (sort ks)))))"
    using assms(3) by (auto simp: verifyIPNSignature_v3_def)
  have c: "sortedParams body ks = JObj (map (\<lambda>k. (k, the (map_of kvs k))) (sort ks))"
    if "body = JObj kvs" "distinct ks" "\<forall>k \<in> set ks. array_index k = None \<and> k \<noteq> ''__proto__''" for kvs
    using that assms(3) sortedParams_sorted_keys [of kvs] by auto
  from a n b c show ?thesis by blast
qed

theorem ipn_signature_checked_when_present_witness:
  "truthy_str (NOWPAYMENTS_IPN_SECRET
      \<lparr>STRIPE_SECRET_KEY = None, STRIPE_WEBHOOK_SECRET = None, NOWPAYMENTS_IPN_SECRET = Some ''ipn'',
       JAP_API_KEY = None, TELEGRAM_BOT_TOKEN = Some ''t'', TELEGRAM_CHAT_ID = Some ''c'',
       RESEND_API_KEY = None\<rparr>)
   \<and> truthy_str (Some ''bad'')
   \<and> Object_keys (JObj [(''payment_status'', JStr ''finished''), (''order_id'', JStr ''gf_1'')])
        = Some [''payment_status'', ''order_id'']
   \<and> nowpayments_webhook_v5 \<lparr>hmac_sha512_hex = (\<lambda>k m. k @ m), number_toString = (\<lambda>r. ''0'')\<rparr>
        \<lparr>STRIPE_SECRET_KEY = None, STRIPE_WEBHOOK_SECRET = None, NOWPAYMENTS_IPN_SECRET = Some ''ipn'',
       JAP_API_KEY = None, TELEGRAM_BOT_TOKEN = Some ''t'', TELEGRAM_CHAT_ID = Some ''c'',
       RESEND_API_KEY = None\<rparr>
        (Some ''bad'')
        (JObj [(''payment_status'', JStr ''finished''), (''order_id'', JStr ''gf_1'')])
        \<lparr>orders_file = [], jap_calls = [], sent = []\<rparr>
      = (Resp 400 (JObj [(''error'', JStr ''Invalid signature'')]),
         \<lparr>orders_file = [], jap_calls = [], sent = []\<rparr>)
   \<and> sortedParams (JObj [(''payment_status'', JStr ''finished''), (''order_id'', JStr ''gf_1'')])
        [''payment_status'', ''order_id'']
      = JObj [(''order_id'', JStr ''gf_1''), (''payment_status'', JStr ''finished'')]
   \<and> \<not> (truthy_str (NOWPAYMENTS_IPN_SECRET
      \<lparr>STRIPE_SECRET_KEY = None, STRIPE_WEBHOOK_SECRET = None, NOWPAYMENTS_IPN_SECRET = None,
       JAP_API_KEY = None, TELEGRAM_BOT_TOKEN = Some ''t'', TELEGRAM_CHAT_ID = Some ''c'',
       RESEND_API_KEY = None\<rparr>) \<and> truthy_str (Some ''bad''))
   \<and> nowpayments_webhook_v5 \<lparr>hmac_sha512_hex = (\<lambda>k m. k @ m), number_toString = (\<lambda>r. ''0'')\<rparr>
        \<lparr>STRIPE_SECRET_KEY = None, STRIPE_WEBHOOK_SECRET = None, NOWPAYMENTS_IPN_SECRET = None,
       JAP_API_KEY = None, TELEGRAM_BOT_TOKEN = Some ''t'', TELEGRAM_CHAT_ID = Some ''c'',
       RESEND_API_KEY = None\<rparr>
        (Some ''bad'')
        (JObj [(''payment_status'', JStr ''finished''), (''order_id'', JStr ''gf_1'')])
        \<lparr>orders_file = [], jap_calls = [], sent = []\<rparr>
      = (Resp 200 (JObj [(''success'', JBool True)]),
         \<lparr>orders_file = [], jap_calls = [],
          sent = [Telegram (CryptoOrder_v5 None None (Some (JStr ''gf_1'')))]\<rparr>)"
proof -
  let ?rt = "\<lparr>hmac_sha512_hex = (\<lambda>k m. k @ m), number_toString = (\<lambda>r. ''0'')\<rparr>"
  let ?e = "\<lparr>STRIPE_SECRET_KEY = None, STRIPE_WEBHOOK_SECRET = None, NOWPAYMENTS_IPN_SECRET = Some ''ipn'',
       JAP_API_KEY = None, TELEGRAM_BOT_TOKEN = Some ''t'', TELEGRAM_CHAT_ID = Some ''c'',
       RESEND_API_KEY = None\<rparr>"
  let ?ne = "\<lparr>STRIPE_SECRET_KEY = None, STRIPE_WEBHOOK_SECRET = None, NOWPAYMENTS_IPN_SECRET = None,
       JAP_API_KEY = None, TELEGRAM_BOT_TOKEN = Some ''t'', TELEGRAM_CHAT_ID = Some ''c'',
       RESEND_API_KEY = None\<rparr>"
  let ?body = "(JObj [(''payment_status'', JStr ''finished''), (''order_id'', JStr ''gf_1'')])"
  let ?w = "\<lparr>orders_file = [], jap_calls = [], sent = []\<rparr>"
  have h1: "truthy_str (NOWPAYMENTS_IPN_SECRET ?e)" by (simp add: truthy_str_def)
  have h2: "truthy_str (Some ''bad'')" by (simp add: truthy_str_def)
  have h3: "Object_keys ?body = Some [''payment_status'', ''order_id'']" by simp
  have idx: "array_index ''payment_status'' = None" "array_index ''order_id'' = None"
    by (simp_all add: array_index_def is_digit_def)
  note t = ipn_signature_checked_when_present [OF h1 h2 h3, of ?rt ?w]
  have old: "nowpayments_webhook_v5 ?rt ?e (Some ''bad'') ?body ?w
      = (Resp 400 (JObj [(''error'', JStr ''Invalid signature'')]), ?w)
    \<and> sortedParams ?body [''payment_status'', ''order_id'']
      = JObj [(''order_id'', JStr ''gf_1''), (''payment_status'', JStr ''finished'')]"
  proof -
    from t have p1: "nowpayments_webhook_v5 ?rt ?e (Some ''bad'') ?body ?w =
           (if the (Some ''bad'') = hmac_sha512_hex ?rt (the (NOWPAYMENTS_IPN_SECRET ?e))
                   (JSON_stringify ?rt (sortedParams ?body [''payment_status'', ''order_id'']) None)
            then nowpayments_event_v5 ?e ?body ?w
            else (Resp 400 (JObj [(''error'', JStr ''Invalid signature'')]), ?w))"
      by blast
    from t have p2: "\<forall>kvs. ?body = JObj kvs \<and> distinct [''payment_status'', ''order_id'']
              \<and> (\<forall>k \<in> set [''payment_status'', ''order_id'']. array_index k = None \<and> k \<noteq> ''__proto__'') \<longrightarrow>
            sortedParams ?body [''payment_status'', ''order_id'']
              = JObj (map (\<lambda>k. (k, the (map_of kvs k))) (sort [''payment_status'', ''order_id'']))"
      by blast
    from p1 p2 h1 h2 idx show ?thesis by simp
  qed
  have h0: "\<not> (truthy_str (NOWPAYMENTS_IPN_SECRET ?ne) \<and> truthy_str (Some ''bad''))"
    by (simp add: truthy_str_def)
  from t h0 have n1: "nowpayments_webhook_v5 ?rt ?ne (Some ''bad'') ?body ?w = nowpayments_event_v5 ?ne ?body ?w"
    by blast
  have ev: "nowpayments_event_v5 ?ne ?body ?w
      = (Resp 200 (JObj [(''success'', JBool True)]),
         \<lparr>orders_file = [], jap_calls = [],
          sent = [Telegram (CryptoOrder_v5 None None (Some (JStr ''gf_1'')))]\<rparr>)"
    by (simp add: truthy_str_def nowpayments_event_v5_def payment_complete_def crypto_order_notice_def
          unconvertible_def sendTelegramNotification_def)
  from h1 h2 h3 old h0 n1 ev show ?thesis by simp
qed

text \<open>
  C4 as stated fails: with a secret configured, a request without the signature header
  is taken as authentic, and the notification for a confirmed payment goes out.
\<close>

theorem ipn_unsigned_request_accepted:
  "nowpayments_webhook_v5 \<lparr>hmac_sha512_hex = (\<lambda>k m. k @ m), number_toString = (\<lambda>r. ''0'')\<rparr>
     \<lparr>STRIPE_SECRET_KEY = None, STRIPE_WEBHOOK_SECRET = None, NOWPAYMENTS_IPN_SECRET = Some ''ipn'',
      JAP_API_KEY = None, TELEGRAM_BOT_TOKEN = Some ''t'', TELEGRAM_CHAT_ID = Some ''c'',
      RESEND_API_KEY = None\<rparr>
     None
     (JObj [(''payment_status'', JStr ''finished''), (''order_id'', JStr ''gf_1'')])
     \<lparr>orders_file = [], jap_calls = [], sent = []\<rparr>
   = (Resp 200 (JObj [(''success'', JBool True)]),
      \<lparr>orders_file = [], jap_calls = [],
       sent = [Telegram (CryptoOrder_v5 None None (Some (JStr ''gf_1'')))]\<rparr>)"
  by (simp add: nowpayments_webhook_v5_def ipn_signature_check_def truthy_str_def
        nowpayments_event_v5_def payment_complete_def crypto_order_notice_def unconvertible_def
        sendTelegramNotification_def)

text \<open>
  C8. A request to the NOWPayments webhook without an \<open>x-nowpayments-sig\<close> header is never
  checked, whatever the configured secret: both handlers go straight to the event
  handling, and they answer and act exactly as on the same body carrying the signature
  the server itself would compute.
\<close>

theorem missing_signature_header_skips_check:
  "nowpayments_webhook_v5 rt e None body w = nowpayments_event_v5 e body w
   \<and> nowpayments_webhook_p0 rt e jap clk None body w = nowpayments_event_p0 e jap clk body w
   \<and> (truthy_str (NOWPAYMENTS_IPN_SECRET e) \<longrightarrow> Object_keys body = Some ks \<longrightarrow>
        nowpayments_webhook_v5 rt e None body w
          = nowpayments_webhook_v5 rt e (Some (expectedSig rt (the (NOWPAYMENTS_IPN_SECRET e)) body ks)) body w
      \<and> nowpayments_webhook_p0 rt e jap clk None body w
          = nowpayments_webhook_p0 rt e jap clk
              (Some (expectedSig rt (the (NOWPAYMENTS_IPN_SECRET e)) body ks)) body w)"
  by (simp add: nowpayments_webhook_v5_def nowpayments_webhook_p0_def ipn_check_no_header
        ipn_check_expected)

theorem missing_signature_header_skips_check_witness:
  "truthy_str (NOWPAYMENTS_IPN_SECRET
      \<lparr>STRIPE_SECRET_KEY = None, STRIPE_WEBHOOK_SECRET = None, NOWPAYMENTS_IPN_SECRET = Some ''ipn'',
       JAP_API_KEY = Some ''jap'', TELEGRAM_BOT_TOKEN = None, TELEGRAM_CHAT_ID = None,
       RESEND_API_KEY = None\<rparr>)
   \<and> jap_calls (snd (nowpayments_webhook_p0
        \<lparr>hmac_sha512_hex = (\<lambda>k m. k @ m), number_toString = (\<lambda>r. ''0'')\<rparr>
        \<lparr>STRIPE_SECRET_KEY = None, STRIPE_WEBHOOK_SECRET = None, NOWPAYMENTS_IPN_SECRET = Some ''ipn'',
         JAP_API_KEY = Some ''jap'', TELEGRAM_BOT_TOKEN = None, TELEGRAM_CHAT_ID = None,
         RESEND_API_KEY = None\<rparr>
        (\<lambda>n r. Reply (JObj [(''order'', JNum 555)]))
        \<lparr>now_ms = 1000, now_iso = ''T''\<rparr>
        None
        (JObj [(''payment_status'', JStr ''finished''), (''order_id'', JStr ''gf_1'')])
        \<lparr>orders_file = [[(''id'', JNum 7), (''orderId'', JStr ''gf_1''),
                          (''link'', JStr ''https://x.y/z''), (''quantity'', JNum 100),
                          (''japServiceId'', JNum 7446), (''status'', JStr ''pending'')]],
         jap_calls = [], sent = []\<rparr>))
      = [\<lparr>service = Some (JNum 7446), link = Some (JStr ''https://x.y/z''), quantity = Some (JNum 100)\<rparr>]"
proof -
  let ?e = "\<lparr>STRIPE_SECRET_KEY = None, STRIPE_WEBHOOK_SECRET = None, NOWPAYMENTS_IPN_SECRET = Some ''ipn'',
         JAP_API_KEY = Some ''jap'', TELEGRAM_BOT_TOKEN = None, TELEGRAM_CHAT_ID = None,
         RESEND_API_KEY = None\<rparr>"
  let ?w = "\<lparr>orders_file = [[(''id'', JNum 7), (''orderId'', JStr ''gf_1''),
                          (''link'', JStr ''https://x.y/z''), (''quantity'', JNum 100),
                          (''japServiceId'', JNum 7446), (''status'', JStr ''pending'')]],
         jap_calls = [], sent = []\<rparr>"
  let ?body = "JObj [(''payment_status'', JStr ''finished''), (''order_id'', JStr ''gf_1'')]"
  have ev: "jap_calls (snd (nowpayments_event_p0 ?e (\<lambda>n r. Reply (JObj [(''order'', JNum 555)]))
               \<lparr>now_ms = 1000, now_iso = ''T''\<rparr> ?body ?w))
      = [\<lparr>service = Some (JNum 7446), link = Some (JStr ''https://x.y/z''), quantity = Some (JNum 100)\<rparr>]"
    by code_simp
  have s: "truthy_str (NOWPAYMENTS_IPN_SECRET ?e)" by (simp add: truthy_str_def)
  show ?thesis
    using missing_signature_header_skips_check
      [of "\<lparr>hmac_sha512_hex = (\<lambda>k m. k @ m), number_toString = (\<lambda>r. ''0'')\<rparr>" ?e ?body ?w
          "\<lambda>n r. Reply (JObj [(''order'', JNum 555)])" "\<lparr>now_ms = 1000, now_iso = ''T''\<rparr>"]
      ev s
    by simp
qed

lemma jap_request_p0_ignores_sdk:
  "jap_request_p0 (lb\<lparr>constructEvent := c\<rparr>) metadata = jap_request_p0 lb metadata"
  by (simp add: jap_request_p0_def)

lemma noted_order_p0_ignores_sdk:
  "noted_order_p0 (lb\<lparr>constructEvent := c\<rparr>) session metadata = noted_order_p0 lb session metadata"
  by (simp add: noted_order_p0_def)

lemma checkout_completed_p0_ignores_sdk:
  "checkout_completed_p0 (lb\<lparr>constructEvent := c\<rparr>) e jap clk session metadata w
     = checkout_completed_p0 lb e jap clk session metadata w"
  unfolding checkout_completed_p0_def jap_request_p0_ignores_sdk noted_order_p0_ignores_sdk ..

lemma stripe_event_p0_ignores_sdk:
  "stripe_event_p0 (lb\<lparr>constructEvent := c\<rparr>) e jap clk event w = stripe_event_p0 lb e jap clk event w"
  by (simp add: stripe_event_p0_def checkout_completed_p0_ignores_sdk split: sum.splits)

text \<open>
  C9. Without a configured secret both checks let everything through. With
  \<open>STRIPE_WEBHOOK_SECRET\<close> unset (or empty) the Stripe handler of the JAP-integrated server
  takes \<open>JSON.parse\<close> of the raw body as the event and handles it in full; neither the
  signature header nor the SDK's verification has any part in the outcome. With
  \<open>NOWPAYMENTS_IPN_SECRET\<close> unset (or empty) \<open>verifyIPNSignature\<close> returns \<open>true\<close> for every
  payload and every signature.
\<close>

theorem webhook_secrets_fail_open:
  "(\<not> truthy_str (STRIPE_WEBHOOK_SECRET e) \<longrightarrow>
      stripe_webhook_p0 lb e jap clk sig rawBody w =
        (case JSON_parse lb rawBody of
           Inl err \<Rightarrow> (RespError 400 err, w)
         | Inr event \<Rightarrow> stripe_event_p0 lb e jap clk event w)
      \<and> stripe_webhook_p0 (lb\<lparr>constructEvent := c\<rparr>) e jap clk sig' rawBody w
          = stripe_webhook_p0 lb e jap clk sig rawBody w)
   \<and> (\<not> truthy_str secret \<longrightarrow> verifyIPNSignature rt secret payload signature = Inr True)"
  by (simp add: stripe_webhook_p0_def constructed_event_p0_def stripe_event_p0_ignores_sdk
        verifyIPNSignature_def split: sum.splits)

theorem webhook_secrets_fail_open_witness:
  "\<not> truthy_str (STRIPE_WEBHOOK_SECRET
      \<lparr>STRIPE_SECRET_KEY = Some ''sk'', STRIPE_WEBHOOK_SECRET = None, NOWPAYMENTS_IPN_SECRET = None,
       JAP_API_KEY = Some ''jap'', TELEGRAM_BOT_TOKEN = None, TELEGRAM_CHAT_ID = None,
       RESEND_API_KEY = None\<rparr>)
   \<and> jap_calls (snd (stripe_webhook_p0
        \<lparr>constructEvent = (\<lambda>b s k. Inl (Error (JStr ''No signatures found''))),
         JSON_parse = (\<lambda>s. Inr (JObj [(''type'', JStr ''checkout.session.completed''),
            (''data'', JObj [(''object'', JObj [(''id'', JStr ''cs_1''),
               (''customer_email'', JStr ''a@b.c''), (''amount_total'', JNum 1250),
               (''metadata'', JObj [(''link'', JStr ''https://x.y/z''), (''quantity'', JStr ''100''),
                  (''japServiceId'', JStr ''7446'')])])])])),
         parseInt = (\<lambda>v. if v = Some (JStr ''100'') then Some 100
                          else if v = Some (JStr ''7446'') then Some 7446 else None),
         div100 = (\<lambda>v. if v = Some (JNum 1250) then Some (25 / 2) else None)\<rparr>
        \<lparr>STRIPE_SECRET_KEY = Some ''sk'', STRIPE_WEBHOOK_SECRET = None, NOWPAYMENTS_IPN_SECRET = None,
         JAP_API_KEY = Some ''jap'', TELEGRAM_BOT_TOKEN = None, TELEGRAM_CHAT_ID = None,
         RESEND_API_KEY = None\<rparr>
        (\<lambda>n r. Reply (JObj [(''order'', JNum 555)]))
        \<lparr>now_ms = 1000, now_iso = ''T''\<rparr>
        (Some ''forged'') ''raw''
        \<lparr>orders_file = [], jap_calls = [], sent = []\<rparr>))
      = [\<lparr>service = Some (JNum 7446), link = Some (JStr ''https://x.y/z''), quantity = Some (JNum 100)\<rparr>]
   \<and> \<not> truthy_str None
   \<and> verifyIPNSignature \<lparr>hmac_sha512_hex = (\<lambda>k m. k @ m), number_toString = (\<lambda>r. ''0'')\<rparr> None
        (JObj [(''payment_status'', JStr ''finished'')]) (Some ''anything'') = Inr True"
proof -
  let ?e = "\<lparr>STRIPE_SECRET_KEY = Some ''sk'', STRIPE_WEBHOOK_SECRET = None, NOWPAYMENTS_IPN_SECRET = None,
         JAP_API_KEY = Some ''jap'', TELEGRAM_BOT_TOKEN = None, TELEGRAM_CHAT_ID = None,
         RESEND_API_KEY = None\<rparr>"
  let ?ev = "JObj [(''type'', JStr ''checkout.session.completed''),
            (''data'', JObj [(''object'', JObj [(''id'', JStr ''cs_1''),
               (''customer_email'', JStr ''a@b.c''), (''amount_total'', JNum 1250),
               (''metadata'', JObj [(''link'', JStr ''https://x.y/z''), (''quantity'', JStr ''100''),
                  (''japServiceId'', JStr ''7446'')])])])]"
  let ?lb = "\<lparr>constructEvent = (\<lambda>b s k. Inl (Error (JStr ''No signatures found''))),
         JSON_parse = (\<lambda>s. Inr ?ev),
         parseInt = (\<lambda>v. if v = Some (JStr ''100'') then Some 100
                          else if v = Some (JStr ''7446'') then Some 7446 else None),
         div100 = (\<lambda>v. if v = Some (JNum 1250) then Some (25 / 2) else None)\<rparr>"
  let ?w = "\<lparr>orders_file = [], jap_calls = [], sent = []\<rparr>"
  have s1: "\<not> truthy_str (STRIPE_WEBHOOK_SECRET ?e)" by (simp add: truthy_str_def)
  have s2: "\<not> truthy_str None" by (simp add: truthy_str_def)
  have ev: "jap_calls (snd (stripe_event_p0 ?lb ?e (\<lambda>n r. Reply (JObj [(''order'', JNum 555)]))
               \<lparr>now_ms = 1000, now_iso = ''T''\<rparr> ?ev ?w))
      = [\<lparr>service = Some (JNum 7446), link = Some (JStr ''https://x.y/z''), quantity = Some (JNum 100)\<rparr>]"
    by code_simp
  show ?thesis
    using webhook_secrets_fail_open
      [of ?e ?lb "\<lambda>n r. Reply (JObj [(''order'', JNum 555)])" "\<lparr>now_ms = 1000, now_iso = ''T''\<rparr>"
          "Some ''forged''" "''raw''" ?w "constructEvent ?lb" "Some ''forged''" None
          "\<lparr>hmac_sha512_hex = (\<lambda>k m. k @ m), number_toString = (\<lambda>r. ''0'')\<rparr>"
          "JObj [(''payment_status'', JStr ''finished'')]" "Some ''anything''"]
      s1 s2 ev
    by simp
qed

section \<open>The orders file\<close>

lemma map_of_insert_index:
  "map_of kvs k = None \<Longrightarrow> map_of (insert_index i k v kvs) k' = (if k' = k then Some v else map_of kvs k')"
  by (induction kvs) (auto split: option.splits if_splits)

lemma map_of_update_key:
  "map_of (map (\<lambda>(k', v'). if k' = k then (k', v) else (k', v')) kvs) k'
     = (if k' = k then map_option (\<lambda>_. v) (map_of kvs k) else map_of kvs k')"
  by (induction kvs) auto

lemma map_of_obj_set:
  "map_of (obj_set kvs k v) k' = (if k' = k \<and> k \<noteq> ''__proto__'' then Some v else map_of kvs k')"
proof (cases "map_of kvs k")
  case None
  then have "k \<notin> set (map fst kvs)" by (simp add: map_of_eq_None_iff)
  with None show ?thesis
    by (auto simp: obj_set_def map_of_insert_index map_add_def split: option.splits)
next
  case (Some x)
  then have "k \<in> set (map fst kvs)" by (metis map_of_eq_None_iff option.distinct(1) set_map)
  with Some show ?thesis
    by (simp add: obj_set_def map_of_update_key)
qed




lemma addOrder_world:
  "snd (addOrder clk orderData w) = w\<lparr>orders_file := fst (addOrder clk orderData w) # orders_file w\<rparr>"
  by (simp add: addOrder_def Let_def)



lemma sendTelegramNotification_keeps [simp]:
  "orders_file (sendTelegramNotification e m w) = orders_file w"
  "jap_calls (sendTelegramNotification e m w) = jap_calls w"
  by (simp_all add: sendTelegramNotification_def)

lemma sendEmailReceipt_keeps [simp]:
  "orders_file (sendEmailReceipt e ord w) = orders_file w"
  "jap_calls (sendEmailReceipt e ord w) = jap_calls w"
  by (simp_all add: sendEmailReceipt_def)







section \<open>Dispatch to the provisioning API\<close>








section \<open>Orders in memory: the complete v3 backend\<close>

lemma get_prop_obj_set:
  "get_prop (obj_set ord k v) k' = (if k' = k \<and> k \<noteq> ''__proto__'' then v else get_prop ord k')"
  by (simp add: get_prop_def map_of_obj_set)

lemma Map_get_Some: "Map_get m key = Some x \<Longrightarrow> key = Some (JStr (the_JStr key)) \<and> m (the_JStr key) = Some x"
  by (cases "(m, key)" rule: Map_get.cases) auto

lemma Map_get_upd: "Map_get m key = Some x \<Longrightarrow> Map_get (m(the_JStr key \<mapsto> y)) key = Some y"
  by (cases "(m, key)" rule: Map_get.cases) auto

lemma updateOrderStatus_found:
  assumes "Map_get (orders st) oid = Some ord"
  shows "updateOrderStatus oid status extra st =
           (Some (Object_assign (obj_set ord ''status'' (Some (JStr status))) extra),
            st\<lparr>orders := (orders st)(the_JStr oid \<mapsto> Object_assign (obj_set ord ''status'' (Some (JStr status))) extra)\<rparr>)"
  using assms by (simp add: updateOrderStatus_def Let_def)

lemma createJAPOrder_throws:
  "URLSearchParams_throws req \<Longrightarrow> createJAPOrder jap req st = (Inl TypeError, st)"
  by (simp add: createJAPOrder_def)

lemma createJAPOrder_result:
  "\<not> URLSearchParams_throws req \<Longrightarrow>
   fst (createJAPOrder jap req st) =
     (if reply_accepted (jap (length (dispatched st)) req)
      then Inr (reply_order (jap (length (dispatched st)) req))
      else Inl (case jap (length (dispatched st)) req of
                  NetworkError \<Rightarrow> FetchError | Reply JNull \<Rightarrow> TypeError
                | Reply data \<Rightarrow> new_Error (own_prop data ''error'')))"
  by (auto simp: createJAPOrder_def reply_accepted_def reply_order_def split: jap_reply.splits json.splits)

lemma createJAPOrder_state:
  "\<not> URLSearchParams_throws req \<Longrightarrow>
   snd (createJAPOrder jap req st) = st\<lparr>dispatched := dispatched st @ [req]\<rparr>"
  by (simp add: createJAPOrder_def)

lemma order_request_status [simp]:
  "order_request (obj_set ord ''status'' v) = order_request ord"
  by (simp add: order_request_def get_prop_obj_set)

lemma mark_paid_and_process_found:
  assumes "Map_get (orders st) oid = Some ord"
  shows "dispatched (mark_paid_and_process jap oid st)
           = dispatched st @ (if URLSearchParams_throws (order_request ord) then [] else [order_request ord])"
    and "Map_get (orders (mark_paid_and_process jap oid st)) oid =
           Some (if \<not> URLSearchParams_throws (order_request ord)
                    \<and> reply_accepted (jap (length (dispatched st)) (order_request ord))
                 then obj_set (obj_set (obj_set ord ''status'' (Some (JStr ''paid'')))
                         ''status'' (Some (JStr ''processing'')))
                         ''japOrderId'' (reply_order (jap (length (dispatched st)) (order_request ord)))
                 else obj_set ord ''status'' (Some (JStr ''paid'')))"
proof -
  let ?paid = "obj_set ord ''status'' (Some (JStr ''paid''))"
  let ?st1 = "st\<lparr>orders := (orders st)(the_JStr oid \<mapsto> ?paid)\<rparr>"
  let ?req = "order_request ord"
  let ?st2 = "?st1\<lparr>dispatched := dispatched st @ [?req]\<rparr>"
  let ?D = "dispatched (mark_paid_and_process jap oid st)
           = dispatched st @ (if URLSearchParams_throws ?req then [] else [?req])"
  let ?M = "Map_get (orders (mark_paid_and_process jap oid st)) oid =
           Some (if \<not> URLSearchParams_throws ?req \<and> reply_accepted (jap (length (dispatched st)) ?req)
                 then obj_set (obj_set ?paid ''status'' (Some (JStr ''processing'')))
                         ''japOrderId'' (reply_order (jap (length (dispatched st)) ?req))
                 else ?paid)"
  have u1: "snd (updateOrderStatus oid ''paid'' [] st) = ?st1"
    using updateOrderStatus_found [OF assms, of "''paid''" "[]"] by (simp add: Object_assign_def)
  have g1: "Map_get (orders ?st1) oid = Some ?paid"
    using Map_get_upd [OF assms] by simp
  have paid: "strict_eq (get_prop ?paid ''status'') (Some (JStr ''paid''))"
    by (simp add: get_prop_obj_set)
  have g2: "Map_get (orders ?st2) oid = Some ?paid" using g1 by simp
  have "?D \<and> ?M"
  proof (cases "URLSearchParams_throws ?req")
    case True
    have p: "processOrder jap oid ?st1 = (Inl TypeError, ?st1)"
      using g1 paid by (simp add: processOrder_def createJAPOrder_throws [OF True])
    show ?thesis
      unfolding mark_paid_and_process_def u1 p using True g1 by simp
  next
    case False
    let ?res = "if reply_accepted (jap (length (dispatched st)) ?req)
        then Inr (reply_order (jap (length (dispatched st)) ?req))
        else Inl (case jap (length (dispatched st)) ?req of
                    NetworkError \<Rightarrow> FetchError | Reply JNull \<Rightarrow> TypeError
                  | Reply data \<Rightarrow> new_Error (own_prop data ''error''))"
    have c: "createJAPOrder jap ?req ?st1 = (?res, ?st2)"
      using createJAPOrder_state [OF False, of jap ?st1] createJAPOrder_result [OF False, of jap ?st1]
      by (simp add: prod_eq_iff)
    have p: "processOrder jap oid ?st1 =
        (if reply_accepted (jap (length (dispatched st)) ?req)
         then (?res, snd (updateOrderStatus oid ''processing''
                            [(''japOrderId'', reply_order (jap (length (dispatched st)) ?req))] ?st2))
         else (?res, ?st2))"
      using g1 paid by (simp add: processOrder_def c)
    have d: ?D
      unfolding mark_paid_and_process_def u1 p
      using updateOrderStatus_found [OF g2] False by simp
    have m: ?M
      unfolding mark_paid_and_process_def u1 p
      using updateOrderStatus_found [OF g2] g2 Map_get_upd [OF g2] False
      by (simp add: Object_assign_def)
    from d m show ?thesis ..
  qed
  then show "dispatched (mark_paid_and_process jap oid st)
           = dispatched st @ (if URLSearchParams_throws (order_request ord) then [] else [order_request ord])"
    and "Map_get (orders (mark_paid_and_process jap oid st)) oid =
           Some (if \<not> URLSearchParams_throws (order_request ord)
                    \<and> reply_accepted (jap (length (dispatched st)) (order_request ord))
                 then obj_set (obj_set (obj_set ord ''status'' (Some (JStr ''paid'')))
                         ''status'' (Some (JStr ''processing'')))
                         ''japOrderId'' (reply_order (jap (length (dispatched st)) (order_request ord)))
                 else obj_set ord ''status'' (Some (JStr ''paid'')))"
    by simp_all
qed


lemma order_request_japOrderId [simp]:
  "order_request (obj_set ord ''japOrderId'' v) = order_request ord"
  by (simp add: order_request_def get_prop_obj_set)



lemma nowpayments_webhook_v3_complete:
  "payment_complete (own_prop body ''payment_status'') \<Longrightarrow>
   snd (nowpayments_webhook_v3 jap body st) = mark_paid_and_process jap (own_prop body ''order_id'') st"
  by (cases body) (auto simp: nowpayments_webhook_v3_def payment_complete_def)


lemma updateOrderStatus_p0_keeps [simp]:
  "jap_calls (snd (updateOrderStatus_p0 clk oid status j w)) = jap_calls w"
  by (simp add: updateOrderStatus_p0_def Let_def split: option.splits)

















lemma placeJapOrder_orders [simp]: "orders_file (snd (placeJapOrder e jap req w)) = orders_file w"
  by (simp add: placeJapOrder_def)







lemma array_index_status: "array_index ''status'' = None"
  by (simp add: array_index_def is_digit_def)

lemma update_key_same:
  "\<forall>(k', v') \<in> set kvs. k' = k \<longrightarrow> v' = v \<Longrightarrow>
   map (\<lambda>(k', v'). if k' = k then (k', v) else (k', v')) kvs = kvs"
  by (induction kvs) auto

lemma obj_set_same:
  assumes "distinct (map fst kvs)" and "map_of kvs k = Some v"
  shows "obj_set kvs k v = kvs"
proof -
  from assms(2) have "k \<in> set (map fst kvs)"
    by (metis map_of_eq_None_iff option.distinct(1) set_map)
  moreover have "\<forall>(k', v') \<in> set kvs. k' = k \<longrightarrow> v' = v"
    using assms by (auto dest!: map_of_is_SomeI [OF assms(1)])
  ultimately show ?thesis by (simp add: obj_set_def update_key_same)
qed

lemma obj_set_status_idem:
  "obj_set (obj_set kvs ''status'' v) ''status'' v = obj_set kvs ''status'' v"
proof (cases "''status'' \<in> set (map fst kvs)")
  case True
  then have "''status'' \<in> set (map fst (map (\<lambda>(k', v'). if k' = ''status'' then (k', v) else (k', v')) kvs))"
    by (force simp: image_iff)
  with True show ?thesis
    by (simp add: obj_set_def comp_def case_prod_beta cong: map_cong)
next
  case False
  then have "\<forall>(k', v') \<in> set (kvs @ [(''status'', v)]). k' = ''status'' \<longrightarrow> v' = v"
    by (auto simp: image_iff)
  from update_key_same [OF this] False show ?thesis
    by (simp add: obj_set_def array_index_status)
qed





text \<open>
  C2 (as the code has it). \<open>updateOrderStatus\<close> writes the status it is given into any
  stored order, whatever the order's current status; no transition is refused. The
  NOWPayments handler, on a confirmed payment for a stored order, leaves the order
  \<open>processing\<close> when the request is sent and the upstream accepts it and \<open>paid\<close> when not,
  from every earlier status.
\<close>

theorem status_set_without_transition_check:
  assumes "Map_get (orders st) oid = Some ord"
  shows "(\<exists>ord'. fst (updateOrderStatus oid status [] st) = Some ord'
            \<and> Map_get (orders (snd (updateOrderStatus oid status [] st))) oid = Some ord'
            \<and> get_prop ord' ''status'' = Some (JStr status))
       \<and> (payment_complete (own_prop body ''payment_status'') \<and> own_prop body ''order_id'' = oid \<longrightarrow>
            (\<exists>ord'. Map_get (orders (snd (nowpayments_webhook_v3 jap body st))) oid = Some ord'
               \<and> get_prop ord' ''status'' =
                   Some (JStr (if \<not> URLSearchParams_throws (order_request ord)
                                  \<and> reply_accepted (jap (length (dispatched st)) (order_request ord))
                               then ''processing'' else ''paid''))))"
proof -
  have a: "\<exists>ord'. fst (updateOrderStatus oid status [] st) = Some ord'
            \<and> Map_get (orders (snd (updateOrderStatus oid status [] st))) oid = Some ord'
            \<and> get_prop ord' ''status'' = Some (JStr status)"
    using updateOrderStatus_found [OF assms, of status "[]"] Map_get_upd [OF assms]
    by (simp add: Object_assign_def get_prop_obj_set)
  have b: "\<exists>ord'. Map_get (orders (snd (nowpayments_webhook_v3 jap body st))) oid = Some ord'
               \<and> get_prop ord' ''status'' =
                   Some (JStr (if \<not> URLSearchParams_throws (order_request ord)
                                  \<and> reply_accepted (jap (length (dispatched st)) (order_request ord))
                               then ''processing'' else ''paid''))"
    if "payment_complete (own_prop body ''payment_status'')" "own_prop body ''order_id'' = oid"
    using nowpayments_webhook_v3_complete [OF that(1), of jap st] that(2)
      mark_paid_and_process_found(2) [OF assms, of jap]
    by (simp add: get_prop_obj_set)
  from a b show ?thesis by blast
qed


theorem status_set_without_transition_check_witness:
  "Map_get (orders \<lparr>orders = [''o1'' \<mapsto> [(''id'', Some (JStr ''o1'')), (''serviceId'', Some (JNum 7446)),
          (''link'', Some (JStr ''https://x.y/z'')), (''quantity'', Some (JNum 100)),
          (''status'', Some (JStr ''processing'')), (''japOrderId'', Some (JNum 555))]],
        dispatched = [], checkouts = []\<rparr>) (Some (JStr ''o1'')) = Some ([(''id'', Some (JStr ''o1'')), (''serviceId'', Some (JNum 7446)),
          (''link'', Some (JStr ''https://x.y/z'')), (''quantity'', Some (JNum 100)),
          (''status'', Some (JStr ''processing'')), (''japOrderId'', Some (JNum 555))])
   \<and> (\<exists>ord'. fst (updateOrderStatus (Some (JStr ''o1'')) ''pending'' [] \<lparr>orders = [''o1'' \<mapsto> [(''id'', Some (JStr ''o1'')), (''serviceId'', Some (JNum 7446)),
          (''link'', Some (JStr ''https://x.y/z'')), (''quantity'', Some (JNum 100)),
          (''status'', Some (JStr ''processing'')), (''japOrderId'', Some (JNum 555))]],
        dispatched = [], checkouts = []\<rparr>) = Some ord'
          \<and> get_prop ord' ''status'' = Some (JStr ''pending''))
   \<and> payment_complete (own_prop (JObj [(''payment_status'', JStr ''finished''), (''order_id'', JStr ''o1'')]) ''payment_status'')
   \<and> own_prop (JObj [(''payment_status'', JStr ''finished''), (''order_id'', JStr ''o1'')]) ''order_id'' = Some (JStr ''o1'')
   \<and> (\<exists>ord'. Map_get (orders (snd (nowpayments_webhook_v3 (\<lambda>n r. Reply (JObj [(''order'', JNum 556)]))
            (JObj [(''payment_status'', JStr ''finished''), (''order_id'', JStr ''o1'')])
            \<lparr>orders = [''o1'' \<mapsto> [(''id'', Some (JStr ''o1'')), (''serviceId'', Some (JNum 7446)),
          (''link'', Some (JStr ''https://x.y/z'')), (''quantity'', Some (JNum 100)),
          (''status'', Some (JStr ''processing'')), (''japOrderId'', Some (JNum 555))]],
        dispatched = [], checkouts = []\<rparr>))) (Some (JStr ''o1'')) = Some ord'
          \<and> get_prop ord' ''status'' = Some (JStr ''processing''))"
proof -
  let ?ord = "[(''id'', Some (JStr ''o1'')), (''serviceId'', Some (JNum 7446)),
          (''link'', Some (JStr ''https://x.y/z'')), (''quantity'', Some (JNum 100)),
          (''status'', Some (JStr ''processing'')), (''japOrderId'', Some (JNum 555))]"
  let ?st = "\<lparr>orders = [''o1'' \<mapsto> [(''id'', Some (JStr ''o1'')), (''serviceId'', Some (JNum 7446)),
          (''link'', Some (JStr ''https://x.y/z'')), (''quantity'', Some (JNum 100)),
          (''status'', Some (JStr ''processing'')), (''japOrderId'', Some (JNum 555))]],
        dispatched = [], checkouts = []\<rparr>"
  let ?body = "(JObj [(''payment_status'', JStr ''finished''), (''order_id'', JStr ''o1'')])"
  let ?jap = "(\<lambda>n r. Reply (JObj [(''order'', JNum 556)]))"
  have h: "Map_get (orders ?st) (Some (JStr ''o1'')) = Some ?ord" by simp
  have p: "payment_complete (own_prop ?body ''payment_status'')" by (simp add: payment_complete_def)
  have o: "own_prop ?body ''order_id'' = Some (JStr ''o1'')" by simp
  have a: "\<not> URLSearchParams_throws (order_request ?ord)
      \<and> reply_accepted (?jap (length (dispatched ?st)) (order_request ?ord))"
    by (simp add: URLSearchParams_throws_def order_request_def get_prop_def unconvertible_def
          reply_accepted_def)
  note t = status_set_without_transition_check [OF h, of "''pending''" ?body ?jap]
  from t have 1: "\<exists>ord'. fst (updateOrderStatus (Some (JStr ''o1'')) ''pending'' [] ?st) = Some ord'
          \<and> get_prop ord' ''status'' = Some (JStr ''pending'')"
    by blast
  from t p o have "\<exists>ord'. Map_get (orders (snd (nowpayments_webhook_v3 ?jap ?body ?st))) (Some (JStr ''o1'')) = Some ord'
          \<and> get_prop ord' ''status'' =
                Some (JStr (if \<not> URLSearchParams_throws (order_request ?ord)
                               \<and> reply_accepted (?jap (length (dispatched ?st)) (order_request ?ord))
                            then ''processing'' else ''paid''))"
    by blast
  with a have 2: "\<exists>ord'. Map_get (orders (snd (nowpayments_webhook_v3 ?jap ?body ?st))) (Some (JStr ''o1'')) = Some ord'
          \<and> get_prop ord' ''status'' = Some (JStr ''processing'')"
    by (simp only: simp_thms if_True)
  from h 1 p o 2 show ?thesis by blast
qed

text \<open>
  C2 as stated fails: an order already \<open>processing\<close>, with its upstream order number,
  is back in \<open>paid\<close> after a repeated payment notification whose upstream call is rejected.
\<close>

theorem processing_order_moved_back_to_paid:
  "get_prop (the (orders (snd (nowpayments_webhook_v3
        (\<lambda>n r. Reply (JObj [(''error'', JStr ''Incorrect request'')]))
        (JObj [(''payment_status'', JStr ''finished''), (''order_id'', JStr ''o1'')])
        \<lparr>orders = [''o1'' \<mapsto> [(''id'', Some (JStr ''o1'')), (''serviceId'', Some (JNum 7446)),
          (''link'', Some (JStr ''https://x.y/z'')), (''quantity'', Some (JNum 100)),
          (''status'', Some (JStr ''processing'')), (''japOrderId'', Some (JNum 555))]],
        dispatched = [], checkouts = []\<rparr>)) ''o1'')) ''status'' = Some (JStr ''paid'')"
  by code_simp

text \<open>
  C3 (as the code has it). Marking paid is \<open>updateOrderStatus(orderId, 'paid')\<close>. On a stored
  order whose status is already \<open>paid\<close> it changes nothing and returns the record; on any
  stored order it never throws, a second call changes nothing more than the first, and
  the record it returns has status \<open>paid\<close>, which for an order in a later status means
  that the status is set back.
\<close>

theorem markPaid_only_idempotent_on_paid:
  assumes "Map_get (orders st) oid = Some ord" and "distinct (map fst ord)"
  shows "(get_prop ord ''status'' = Some (JStr ''paid'') \<longrightarrow>
            updateOrderStatus oid ''paid'' [] st = (Some ord, st))
       \<and> updateOrderStatus oid ''paid'' [] (snd (updateOrderStatus oid ''paid'' [] st))
           = updateOrderStatus oid ''paid'' [] st
       \<and> (\<exists>ord'. fst (updateOrderStatus oid ''paid'' [] st) = Some ord'
             \<and> get_prop ord' ''status'' = Some (JStr ''paid''))"
proof -
  let ?paid = "obj_set ord ''status'' (Some (JStr ''paid''))"
  let ?st1 = "st\<lparr>orders := (orders st)(the_JStr oid \<mapsto> ?paid)\<rparr>"
  have u: "updateOrderStatus oid ''paid'' [] st = (Some ?paid, ?st1)"
    using updateOrderStatus_found [OF assms(1), of "''paid''" "[]"] by (simp add: Object_assign_def)
  have a: "updateOrderStatus oid ''paid'' [] st = (Some ord, st)"
    if "get_prop ord ''status'' = Some (JStr ''paid'')"
  proof -
    from that have "map_of ord ''status'' = Some (Some (JStr ''paid''))"
      by (auto simp: get_prop_def split: option.splits)
    from obj_set_same [OF assms(2) this] have "?paid = ord" .
    moreover have "orders st (the_JStr oid) = Some ord"
      using Map_get_Some [OF assms(1)] by simp
    ultimately show ?thesis
      using u by (simp add: map_upd_triv)
  qed
  have g1: "Map_get (orders ?st1) oid = Some ?paid"
    using Map_get_upd [OF assms(1)] by simp
  have b: "updateOrderStatus oid ''paid'' [] ?st1 = (Some ?paid, ?st1)"
    using updateOrderStatus_found [OF g1, of "''paid''" "[]"]
    by (simp add: Object_assign_def obj_set_status_idem)
  have c: "get_prop ?paid ''status'' = Some (JStr ''paid'')"
    by (simp add: get_prop_obj_set)
  show ?thesis
    unfolding u using a b c u by auto
qed


theorem markPaid_only_idempotent_on_paid_witness:
  "Map_get (orders \<lparr>orders = [''o1'' \<mapsto> [(''id'', Some (JStr ''o1'')), (''serviceId'', Some (JNum 7446)),
          (''link'', Some (JStr ''https://x.y/z'')), (''quantity'', Some (JNum 100)),
          (''status'', Some (JStr ''paid'')), (''japOrderId'', Some JNull)]],
        dispatched = [], checkouts = []\<rparr>) (Some (JStr ''o1'')) = Some ([(''id'', Some (JStr ''o1'')), (''serviceId'', Some (JNum 7446)),
          (''link'', Some (JStr ''https://x.y/z'')), (''quantity'', Some (JNum 100)),
          (''status'', Some (JStr ''paid'')), (''japOrderId'', Some JNull)])
   \<and> distinct (map fst ([(''id'', Some (JStr ''o1'')), (''serviceId'', Some (JNum 7446)),
          (''link'', Some (JStr ''https://x.y/z'')), (''quantity'', Some (JNum 100)),
          (''status'', Some (JStr ''paid'')), (''japOrderId'', Some JNull)]))
   \<and> get_prop ([(''id'', Some (JStr ''o1'')), (''serviceId'', Some (JNum 7446)),
          (''link'', Some (JStr ''https://x.y/z'')), (''quantity'', Some (JNum 100)),
          (''status'', Some (JStr ''paid'')), (''japOrderId'', Some JNull)]) ''status'' = Some (JStr ''paid'')
   \<and> updateOrderStatus (Some (JStr ''o1'')) ''paid'' [] \<lparr>orders = [''o1'' \<mapsto> [(''id'', Some (JStr ''o1'')), (''serviceId'', Some (JNum 7446)),
          (''link'', Some (JStr ''https://x.y/z'')), (''quantity'', Some (JNum 100)),
          (''status'', Some (JStr ''paid'')), (''japOrderId'', Some JNull)]],
        dispatched = [], checkouts = []\<rparr> = (Some ([(''id'', Some (JStr ''o1'')), (''serviceId'', Some (JNum 7446)),
          (''link'', Some (JStr ''https://x.y/z'')), (''quantity'', Some (JNum 100)),
          (''status'', Some (JStr ''paid'')), (''japOrderId'', Some JNull)]), \<lparr>orders = [''o1'' \<mapsto> [(''id'', Some (JStr ''o1'')), (''serviceId'', Some (JNum 7446)),
          (''link'', Some (JStr ''https://x.y/z'')), (''quantity'', Some (JNum 100)),
          (''status'', Some (JStr ''paid'')), (''japOrderId'', Some JNull)]],
        dispatched = [], checkouts = []\<rparr>)"
proof -
  have h1: "Map_get (orders \<lparr>orders = [''o1'' \<mapsto> [(''id'', Some (JStr ''o1'')), (''serviceId'', Some (JNum 7446)),
          (''link'', Some (JStr ''https://x.y/z'')), (''quantity'', Some (JNum 100)),
          (''status'', Some (JStr ''paid'')), (''japOrderId'', Some JNull)]],
        dispatched = [], checkouts = []\<rparr>) (Some (JStr ''o1'')) = Some ([(''id'', Some (JStr ''o1'')), (''serviceId'', Some (JNum 7446)),
          (''link'', Some (JStr ''https://x.y/z'')), (''quantity'', Some (JNum 100)),
          (''status'', Some (JStr ''paid'')), (''japOrderId'', Some JNull)])" by simp
  have h2: "distinct (map fst ([(''id'', Some (JStr ''o1'')), (''serviceId'', Some (JNum 7446)),
          (''link'', Some (JStr ''https://x.y/z'')), (''quantity'', Some (JNum 100)),
          (''status'', Some (JStr ''paid'')), (''japOrderId'', Some JNull)]))" by simp
  have h3: "get_prop ([(''id'', Some (JStr ''o1'')), (''serviceId'', Some (JNum 7446)),
          (''link'', Some (JStr ''https://x.y/z'')), (''quantity'', Some (JNum 100)),
          (''status'', Some (JStr ''paid'')), (''japOrderId'', Some JNull)]) ''status'' = Some (JStr ''paid'')" by (simp add: get_prop_def)
  show ?thesis
    using markPaid_only_idempotent_on_paid [OF h1 h2] h1 h2 h3
    by blast
qed

text \<open>
  C3 as stated fails for an order in a later state: marking a \<open>processing\<close> order paid
  is not a no-op, the returned record has status \<open>paid\<close>.
\<close>

theorem markPaid_resets_processing_order:
  "get_prop ([(''id'', Some (JStr ''o1'')), (''serviceId'', Some (JNum 7446)),
          (''link'', Some (JStr ''https://x.y/z'')), (''quantity'', Some (JNum 100)),
          (''status'', Some (JStr ''processing'')), (''japOrderId'', Some (JNum 555))]) ''status'' = Some (JStr ''processing'')
   \<and> get_prop (the (fst (updateOrderStatus (Some (JStr ''o1'')) ''paid'' [] \<lparr>orders = [''o1'' \<mapsto> [(''id'', Some (JStr ''o1'')), (''serviceId'', Some (JNum 7446)),
          (''link'', Some (JStr ''https://x.y/z'')), (''quantity'', Some (JNum 100)),
          (''status'', Some (JStr ''processing'')), (''japOrderId'', Some (JNum 555))]],
        dispatched = [], checkouts = []\<rparr>))) ''status''
      = Some (JStr ''paid'')
   \<and> get_prop (the (orders (snd (updateOrderStatus (Some (JStr ''o1'')) ''paid'' [] \<lparr>orders = [''o1'' \<mapsto> [(''id'', Some (JStr ''o1'')), (''serviceId'', Some (JNum 7446)),
          (''link'', Some (JStr ''https://x.y/z'')), (''quantity'', Some (JNum 100)),
          (''status'', Some (JStr ''processing'')), (''japOrderId'', Some (JNum 555))]],
        dispatched = [], checkouts = []\<rparr>)) ''o1'')) ''status''
      = Some (JStr ''paid'')"
  by code_simp


section \<open>Quantity bounds and the catalog cache\<close>

lemma validate_quantity:
  "js_less (ToNumber conv (own_prop body ''quantity'')) (Some 1)
     \<or> js_less (Some 1000000) (ToNumber conv (own_prop body ''quantity'')) \<Longrightarrow>
   ''Invalid quantity'' \<in> set (validateOrderInput conv email_ok body)"
  by (auto simp: validateOrderInput_def)

text \<open>
  C6 (as the code has it). In v2 a quantity below the service's \<open>min\<close> or above its \<open>max\<close> is
  refused with an error by \<open>createCheckoutSession\<close> before any Stripe session is created,
  and by \<open>createOrder\<close> before any upstream order is placed or any record stored. In
  v5 \<open>validateOrderInput\<close> knows no service: it refuses a quantity below 1 or above
  1,000,000, and the request is answered 400 before Stripe is reached. (Stated for
  quantities that can be compared at all; on the others the comparison itself throws.)
\<close>

theorem quantity_bounds_checked_in_v2:
  assumes "fst (getServiceById_v2 lb (transform d) now later fetched (od_serviceId od) (services_v2 st))
             = Inr (Some svc)"
    and "\<not> unconvertible (od_quantity od)"
    and "quantity_out_of_range d (od_quantity od) svc"
  shows "fst (createCheckoutSession_v2 lb d now later fetched od st)
           = Inl (QuantityOutOfRange (s_min svc) (s_max svc))
       \<and> stripe_sessions (snd (createCheckoutSession_v2 lb d now later fetched od st)) = stripe_sessions st
       \<and> fst (createOrder_v2 lb d jap now later fetched created od st)
           = Inl (QuantityOutOfRange (s_min svc) (s_max svc))
       \<and> jap_orders (snd (createOrder_v2 lb d jap now later fetched created od st)) = jap_orders st
       \<and> orders_v2 (snd (createOrder_v2 lb d jap now later fetched created od st)) = orders_v2 st
       \<and> (\<forall>body. body \<noteq> JNull \<and> \<not> validateOrderInput_throws body
              \<and> (js_less (ToNumber conv (own_prop body ''quantity'')) (Some 1)
                 \<or> js_less (Some 1000000) (ToNumber conv (own_prop body ''quantity''))) \<longrightarrow>
              ''Invalid quantity'' \<in> set (validateOrderInput conv email_ok body)
              \<and> api_order_v5 conv email_ok create_session e body sessions
                  = (Resp 400 (JObj [(''error'',
                        JStr (join_with '', '' (validateOrderInput conv email_ok body)))]), sessions))"
proof -
  obtain cat where g: "getServiceById_v2 lb (transform d) now later fetched (od_serviceId od) (services_v2 st)
      = (Inr (Some svc), cat)"
    using assms(1) by (metis prod.collapse)
  have a: "createCheckoutSession_v2 lb d now later fetched od st
      = (Inl (QuantityOutOfRange (s_min svc) (s_max svc)), st\<lparr>services_v2 := cat\<rparr>)"
    using assms(2,3) by (simp add: createCheckoutSession_v2_def g)
  have b: "createOrder_v2 lb d jap now later fetched created od st
      = (Inl (QuantityOutOfRange (s_min svc) (s_max svc)), st\<lparr>services_v2 := cat\<rparr>)"
    using assms(2,3) by (simp add: createOrder_v2_def g)
  have c: "''Invalid quantity'' \<in> set (validateOrderInput conv email_ok body)
         \<and> api_order_v5 conv email_ok create_session e body sessions
                  = (Resp 400 (JObj [(''error'',
                        JStr (join_with '', '' (validateOrderInput conv email_ok body)))]), sessions)"
    if "body \<noteq> JNull" "\<not> validateOrderInput_throws body"
       "js_less (ToNumber conv (own_prop body ''quantity'')) (Some 1)
                 \<or> js_less (Some 1000000) (ToNumber conv (own_prop body ''quantity''))" for body
  proof -
    from validate_quantity [OF that(3)] have m: "''Invalid quantity'' \<in> set (validateOrderInput conv email_ok body)" .
    then have "validateOrderInput conv email_ok body \<noteq> []" by auto
    with that(1,2) m show ?thesis by (simp add: api_order_v5_def)
  qed
  from a b c show ?thesis by simp
qed


theorem quantity_bounds_checked_in_v2_witness:
  "fst (getServiceById_v2 \<lparr>constructEvent = (\<lambda>b s k. Inl StripeError), JSON_parse = (\<lambda>s. Inl SyntaxError),
       parseInt = (\<lambda>v. case v of Some (JNum r) \<Rightarrow> Some r | _ \<Rightarrow> None), div100 = (\<lambda>v. None)\<rparr> (transform \<lparr>transform = (\<lambda>j. Inr []), coerce = (\<lambda>v. None), validateLink = (\<lambda>l p. True),
       calculateTotal = (\<lambda>r q. None), getJapCost = (\<lambda>r q. None), profit_of = (\<lambda>t c. None),
       generateInternalId = ''GF1'', id_toString = (\<lambda>v. Inr ''1''),
       sessions_create = (\<lambda>svc r. Inr [])\<rparr>) 1000 1001 NetworkError (od_serviceId \<lparr>od_serviceId = Some (JNum 7446), od_link = Some (JStr ''https://instagram.com/u''),
       od_quantity = Some (JNum 5), od_email = None, od_paymentId = None\<rparr>)
          (services_v2 \<lparr>services_v2 = \<lparr>servicesCache = Some [\<lparr>s_id = Some (JNum 7446), s_name = ''Followers - Standard'', s_platform = ''instagram'',
        s_type = ''followers'', s_description = ''Fast delivery'', s_rate = Some 3,
        s_min = Some 100, s_max = Some 10000\<rparr>], cacheTimestamp = 0\<rparr>,
       orders_v2 = Map.empty, jap_orders = [], stripe_sessions = []\<rparr>)) = Inr (Some \<lparr>s_id = Some (JNum 7446), s_name = ''Followers - Standard'', s_platform = ''instagram'',
        s_type = ''followers'', s_description = ''Fast delivery'', s_rate = Some 3,
        s_min = Some 100, s_max = Some 10000\<rparr>)
   \<and> quantity_out_of_range \<lparr>transform = (\<lambda>j. Inr []), coerce = (\<lambda>v. None), validateLink = (\<lambda>l p. True),
       calculateTotal = (\<lambda>r q. None), getJapCost = (\<lambda>r q. None), profit_of = (\<lambda>t c. None),
       generateInternalId = ''GF1'', id_toString = (\<lambda>v. Inr ''1''),
       sessions_create = (\<lambda>svc r. Inr [])\<rparr> (od_quantity \<lparr>od_serviceId = Some (JNum 7446), od_link = Some (JStr ''https://instagram.com/u''),
       od_quantity = Some (JNum 5), od_email = None, od_paymentId = None\<rparr>) \<lparr>s_id = Some (JNum 7446), s_name = ''Followers - Standard'', s_platform = ''instagram'',
        s_type = ''followers'', s_description = ''Fast delivery'', s_rate = Some 3,
        s_min = Some 100, s_max = Some 10000\<rparr>
   \<and> fst (createCheckoutSession_v2 \<lparr>constructEvent = (\<lambda>b s k. Inl StripeError), JSON_parse = (\<lambda>s. Inl SyntaxError),
       parseInt = (\<lambda>v. case v of Some (JNum r) \<Rightarrow> Some r | _ \<Rightarrow> None), div100 = (\<lambda>v. None)\<rparr> \<lparr>transform = (\<lambda>j. Inr []), coerce = (\<lambda>v. None), validateLink = (\<lambda>l p. True),
       calculateTotal = (\<lambda>r q. None), getJapCost = (\<lambda>r q. None), profit_of = (\<lambda>t c. None),
       generateInternalId = ''GF1'', id_toString = (\<lambda>v. Inr ''1''),
       sessions_create = (\<lambda>svc r. Inr [])\<rparr> 1000 1001 NetworkError \<lparr>od_serviceId = Some (JNum 7446), od_link = Some (JStr ''https://instagram.com/u''),
       od_quantity = Some (JNum 5), od_email = None, od_paymentId = None\<rparr> \<lparr>services_v2 = \<lparr>servicesCache = Some [\<lparr>s_id = Some (JNum 7446), s_name = ''Followers - Standard'', s_platform = ''instagram'',
        s_type = ''followers'', s_description = ''Fast delivery'', s_rate = Some 3,
        s_min = Some 100, s_max = Some 10000\<rparr>], cacheTimestamp = 0\<rparr>,
       orders_v2 = Map.empty, jap_orders = [], stripe_sessions = []\<rparr>)
       = Inl (QuantityOutOfRange (Some 100) (Some 10000))
   \<and> \<not> unconvertible (Some (JNum 5))
   \<and> (JObj [(''quantity'', JNum 0)] \<noteq> JNull \<and> \<not> validateOrderInput_throws (JObj [(''quantity'', JNum 0)])
        \<and> js_less (ToNumber (\<lambda>v. None) (own_prop (JObj [(''quantity'', JNum 0)]) ''quantity'')) (Some 1))"
proof -
  have h1: "fst (getServiceById_v2 \<lparr>constructEvent = (\<lambda>b s k. Inl StripeError), JSON_parse = (\<lambda>s. Inl SyntaxError),
       parseInt = (\<lambda>v. case v of Some (JNum r) \<Rightarrow> Some r | _ \<Rightarrow> None), div100 = (\<lambda>v. None)\<rparr> (transform \<lparr>transform = (\<lambda>j. Inr []), coerce = (\<lambda>v. None), validateLink = (\<lambda>l p. True),
       calculateTotal = (\<lambda>r q. None), getJapCost = (\<lambda>r q. None), profit_of = (\<lambda>t c. None),
       generateInternalId = ''GF1'', id_toString = (\<lambda>v. Inr ''1''),
       sessions_create = (\<lambda>svc r. Inr [])\<rparr>) 1000 1001 NetworkError (od_serviceId \<lparr>od_serviceId = Some (JNum 7446), od_link = Some (JStr ''https://instagram.com/u''),
       od_quantity = Some (JNum 5), od_email = None, od_paymentId = None\<rparr>)
          (services_v2 \<lparr>services_v2 = \<lparr>servicesCache = Some [\<lparr>s_id = Some (JNum 7446), s_name = ''Followers - Standard'', s_platform = ''instagram'',
        s_type = ''followers'', s_description = ''Fast delivery'', s_rate = Some 3,
        s_min = Some 100, s_max = Some 10000\<rparr>], cacheTimestamp = 0\<rparr>,
       orders_v2 = Map.empty, jap_orders = [], stripe_sessions = []\<rparr>)) = Inr (Some \<lparr>s_id = Some (JNum 7446), s_name = ''Followers - Standard'', s_platform = ''instagram'',
        s_type = ''followers'', s_description = ''Fast delivery'', s_rate = Some 3,
        s_min = Some 100, s_max = Some 10000\<rparr>)"
    by (simp add: getServiceById_v2_def isServiceAllowed_def ALLOWED_SERVICE_IDS_def getServices_v2_def
          CACHE_DURATION_def unconvertible_def)
  have h2: "quantity_out_of_range \<lparr>transform = (\<lambda>j. Inr []), coerce = (\<lambda>v. None), validateLink = (\<lambda>l p. True),
       calculateTotal = (\<lambda>r q. None), getJapCost = (\<lambda>r q. None), profit_of = (\<lambda>t c. None),
       generateInternalId = ''GF1'', id_toString = (\<lambda>v. Inr ''1''),
       sessions_create = (\<lambda>svc r. Inr [])\<rparr> (od_quantity \<lparr>od_serviceId = Some (JNum 7446), od_link = Some (JStr ''https://instagram.com/u''),
       od_quantity = Some (JNum 5), od_email = None, od_paymentId = None\<rparr>) \<lparr>s_id = Some (JNum 7446), s_name = ''Followers - Standard'', s_platform = ''instagram'',
        s_type = ''followers'', s_description = ''Fast delivery'', s_rate = Some 3,
        s_min = Some 100, s_max = Some 10000\<rparr>"
    by (simp add: quantity_out_of_range_def js_less_def)
  have h3: "js_less (ToNumber (\<lambda>v. None) (own_prop (JObj [(''quantity'', JNum 0)]) ''quantity'')) (Some 1)"
    by (simp add: js_less_def)
  have h4: "\<not> unconvertible (Some (JNum 5))" by (simp add: unconvertible_def)
  have h5: "\<not> validateOrderInput_throws (JObj [(''quantity'', JNum 0)])"
    by (simp add: validateOrderInput_throws_def unconvertible_def)
  show ?thesis
    using quantity_bounds_checked_in_v2 [OF h1 _ h2] h1 h2 h3 h4 h5
    by simp
qed

text \<open>
  C6 as stated fails: in the complete v3 backend, with the catalog serving its fallback
  list (service 7446, minimum 100), a request for quantity 5 is answered with a checkout
  URL; the order is stored, \<open>pending\<close>, and the Stripe checkout has been created. In v5 the
  same quantity for the same service passes \<open>validateOrderInput\<close>, and the Stripe session is
  created.
\<close>

theorem quantity_below_minimum_reaches_checkout:
  "map (\<lambda>s. own_prop s ''min'')
       (filter (\<lambda>s. own_prop s ''id'' = Some (JNum 7446))
          (fst (getServices_v3 (curate \<lparr>curate = (\<lambda>xs. Inr xs), total_of = (\<lambda>p q. Some (3 / 50)), uuidv4 = ''u1'', created_at = ''T'',
       createStripeCheckout = (\<lambda>r. Inr [(''id'', Some (JStr ''cs_1'')),
                                         (''url'', Some (JStr ''https://checkout.stripe.com/c/cs_1''))])\<rparr>) 0 1 NetworkError \<lparr>servicesCache = None, cacheTimestamp = 0\<rparr>)))
     = [Some (JNum 100)]
   \<and> fst (api_order_v3 \<lparr>constructEvent = (\<lambda>b s k. Inl StripeError), JSON_parse = (\<lambda>s. Inl SyntaxError),
       parseInt = (\<lambda>v. case v of Some (JNum r) \<Rightarrow> Some r | _ \<Rightarrow> None), div100 = (\<lambda>v. None)\<rparr> \<lparr>curate = (\<lambda>xs. Inr xs), total_of = (\<lambda>p q. Some (3 / 50)), uuidv4 = ''u1'', created_at = ''T'',
       createStripeCheckout = (\<lambda>r. Inr [(''id'', Some (JStr ''cs_1'')),
                                         (''url'', Some (JStr ''https://checkout.stripe.com/c/cs_1''))])\<rparr> 0 1 NetworkError (JObj [(''serviceId'', JNum 7446), (''link'', JStr ''https://instagram.com/u''),
             (''quantity'', JNum 5), (''email'', JStr ''a@b.c'')]) (\<lparr>servicesCache = None, cacheTimestamp = 0\<rparr>,
        \<lparr>orders = Map.empty, dispatched = [], checkouts = []\<rparr>))
     = Resp 200 (JObj [(''orderId'', JStr ''u1''),
                       (''checkoutUrl'', JStr ''https://checkout.stripe.com/c/cs_1'')])
   \<and> map (get_prop (the (orders (snd (snd (api_order_v3 \<lparr>constructEvent = (\<lambda>b s k. Inl StripeError), JSON_parse = (\<lambda>s. Inl SyntaxError),
       parseInt = (\<lambda>v. case v of Some (JNum r) \<Rightarrow> Some r | _ \<Rightarrow> None), div100 = (\<lambda>v. None)\<rparr> \<lparr>curate = (\<lambda>xs. Inr xs), total_of = (\<lambda>p q. Some (3 / 50)), uuidv4 = ''u1'', created_at = ''T'',
       createStripeCheckout = (\<lambda>r. Inr [(''id'', Some (JStr ''cs_1'')),
                                         (''url'', Some (JStr ''https://checkout.stripe.com/c/cs_1''))])\<rparr> 0 1 NetworkError (JObj [(''serviceId'', JNum 7446), (''link'', JStr ''https://instagram.com/u''),
             (''quantity'', JNum 5), (''email'', JStr ''a@b.c'')]) (\<lparr>servicesCache = None, cacheTimestamp = 0\<rparr>,
        \<lparr>orders = Map.empty, dispatched = [], checkouts = []\<rparr>)))) ''u1'')))
         [''quantity'', ''status'']
     = [Some (JNum 5), Some (JStr ''pending'')]
   \<and> length (checkouts (snd (snd (api_order_v3 \<lparr>constructEvent = (\<lambda>b s k. Inl StripeError), JSON_parse = (\<lambda>s. Inl SyntaxError),
       parseInt = (\<lambda>v. case v of Some (JNum r) \<Rightarrow> Some r | _ \<Rightarrow> None), div100 = (\<lambda>v. None)\<rparr> \<lparr>curate = (\<lambda>xs. Inr xs), total_of = (\<lambda>p q. Some (3 / 50)), uuidv4 = ''u1'', created_at = ''T'',
       createStripeCheckout = (\<lambda>r. Inr [(''id'', Some (JStr ''cs_1'')),
                                         (''url'', Some (JStr ''https://checkout.stripe.com/c/cs_1''))])\<rparr> 0 1 NetworkError (JObj [(''serviceId'', JNum 7446), (''link'', JStr ''https://instagram.com/u''),
             (''quantity'', JNum 5), (''email'', JStr ''a@b.c'')]) (\<lparr>servicesCache = None, cacheTimestamp = 0\<rparr>,
        \<lparr>orders = Map.empty, dispatched = [], checkouts = []\<rparr>))))) = 1
   \<and> api_order_v5 (\<lambda>v. None) (\<lambda>v. True)
        (\<lambda>b. Inr [(''id'', Some (JStr ''cs_5'')), (''url'', Some (JStr ''https://checkout.stripe.com/c/cs_5''))])
        \<lparr>STRIPE_SECRET_KEY = Some ''sk'', STRIPE_WEBHOOK_SECRET = Some ''wh'', NOWPAYMENTS_IPN_SECRET = None,
         JAP_API_KEY = Some ''jap'', TELEGRAM_BOT_TOKEN = None, TELEGRAM_CHAT_ID = None,
         RESEND_API_KEY = None\<rparr>
        (JObj [(''link'', JStr ''https://instagram.com/u''), (''email'', JStr ''a@b.c''),
               (''quantity'', JNum 5), (''serviceId'', JNum 7446), (''amount'', JNum 1)])
        []
     = (Resp 200 (JObj [(''url'', JStr ''https://checkout.stripe.com/c/cs_5''), (''sessionId'', JStr ''cs_5'')]),
        [[(''id'', Some (JStr ''cs_5'')), (''url'', Some (JStr ''https://checkout.stripe.com/c/cs_5''))]])"
  by code_simp

text \<open>
  C7 (as the code has it). In v2, once a list is cached, a read whose upstream request
  or transform fails returns the cached list, the data of the last successful fetch,
  and leaves the cache as it is; \<open>getServiceById\<close> looks the service up in that list. A
  successful fetch returns the new list and makes it the cache. In v3 the stale list is
  not served: when the cache has expired and the request brings nothing, \<open>getServices\<close>
  returns the curated fallback list.
\<close>

theorem stale_cache_served_v2_only:
  assumes "servicesCache cat = Some cached"
  shows "(fetch_failed_v2 tr fetched \<longrightarrow>
            getServices_v2 tr now later fetched forceRefresh cat = (Inr cached, cat)
          \<and> (\<not> unconvertible serviceId \<and> isServiceAllowed lb serviceId \<longrightarrow>
               getServiceById_v2 lb tr now later fetched serviceId cat
                 = (Inr (find (\<lambda>s. strict_eq (s_id s) (Some (JNum (the (parseInt lb serviceId))))) cached),
                    cat)))
       \<and> (\<not> fetch_failed_v2 tr fetched \<longrightarrow>
            (forceRefresh \<or> CACHE_DURATION \<le> now - cacheTimestamp cat) \<longrightarrow>
            (\<exists>services. getServices_v2 tr now later fetched forceRefresh cat
                = (Inr services, \<lparr>servicesCache = Some services, cacheTimestamp = later\<rparr>)))
       \<and> (\<forall>c :: json catalog. fetchJAPServices fetched = [] \<longrightarrow> CACHE_DURATION \<le> now - cacheTimestamp c \<longrightarrow>
            getServices_v3 cur now later fetched c = (getCuratedFallback, c))"
proof -
  have a: "getServices_v2 tr now later fetched fr cat = (Inr cached, cat)"
    if "fetch_failed_v2 tr fetched" for fr
    using that assms
    by (auto simp: getServices_v2_def fetch_failed_v2_def split: sum.splits)
  have b: "\<exists>services. getServices_v2 tr now later fetched forceRefresh cat
                = (Inr services, \<lparr>servicesCache = Some services, cacheTimestamp = later\<rparr>)"
    if "\<not> fetch_failed_v2 tr fetched" "forceRefresh \<or> CACHE_DURATION \<le> now - cacheTimestamp cat"
    using that assms
    by (auto simp: getServices_v2_def fetch_failed_v2_def split: sum.splits)
  have c: "getServices_v3 cur now later fetched c = (getCuratedFallback, c)"
    if "fetchJAPServices fetched = []" "CACHE_DURATION \<le> now - cacheTimestamp c" for c :: "json catalog"
    using that by (simp add: getServices_v3_def)
  from a [of False] a [of forceRefresh] b c show ?thesis
    by (simp add: getServiceById_v2_def)
qed

theorem stale_cache_served_v2_only_witness:
  "servicesCache \<lparr>servicesCache = Some [\<lparr>s_id = Some (JNum 7446), s_name = ''Followers - Standard'', s_platform = ''instagram'',
        s_type = ''followers'', s_description = ''Fast delivery'', s_rate = Some 3,
        s_min = Some 100, s_max = Some 10000\<rparr>], cacheTimestamp = 0\<rparr> = Some [\<lparr>s_id = Some (JNum 7446), s_name = ''Followers - Standard'', s_platform = ''instagram'',
        s_type = ''followers'', s_description = ''Fast delivery'', s_rate = Some 3,
        s_min = Some 100, s_max = Some 10000\<rparr>]
   \<and> fetch_failed_v2 (\<lambda>j. Inr []) NetworkError
   \<and> getServices_v2 (\<lambda>j. Inr []) 400000 400001 NetworkError False \<lparr>servicesCache = Some [\<lparr>s_id = Some (JNum 7446), s_name = ''Followers - Standard'', s_platform = ''instagram'',
        s_type = ''followers'', s_description = ''Fast delivery'', s_rate = Some 3,
        s_min = Some 100, s_max = Some 10000\<rparr>], cacheTimestamp = 0\<rparr> = (Inr [\<lparr>s_id = Some (JNum 7446), s_name = ''Followers - Standard'', s_platform = ''instagram'',
        s_type = ''followers'', s_description = ''Fast delivery'', s_rate = Some 3,
        s_min = Some 100, s_max = Some 10000\<rparr>], \<lparr>servicesCache = Some [\<lparr>s_id = Some (JNum 7446), s_name = ''Followers - Standard'', s_platform = ''instagram'',
        s_type = ''followers'', s_description = ''Fast delivery'', s_rate = Some 3,
        s_min = Some 100, s_max = Some 10000\<rparr>], cacheTimestamp = 0\<rparr>)
   \<and> fetchJAPServices NetworkError = []
   \<and> CACHE_DURATION \<le> 400000 - cacheTimestamp \<lparr>servicesCache = Some [JNull], cacheTimestamp = 0\<rparr>"
proof -
  have h: "servicesCache \<lparr>servicesCache = Some [\<lparr>s_id = Some (JNum 7446), s_name = ''Followers - Standard'', s_platform = ''instagram'',
        s_type = ''followers'', s_description = ''Fast delivery'', s_rate = Some 3,
        s_min = Some 100, s_max = Some 10000\<rparr>], cacheTimestamp = 0\<rparr> = Some [\<lparr>s_id = Some (JNum 7446), s_name = ''Followers - Standard'', s_platform = ''instagram'',
        s_type = ''followers'', s_description = ''Fast delivery'', s_rate = Some 3,
        s_min = Some 100, s_max = Some 10000\<rparr>]" by simp
  have f: "fetch_failed_v2 (\<lambda>j. Inr []) NetworkError"
    by (simp add: fetch_failed_v2_def jap_request_v2_def)
  have g: "fetchJAPServices NetworkError = []" by (simp add: fetchJAPServices_def)
  have t: "CACHE_DURATION \<le> 400000 - cacheTimestamp \<lparr>servicesCache = Some [JNull], cacheTimestamp = 0\<rparr>"
    by (simp add: CACHE_DURATION_def)
  show ?thesis
    using stale_cache_served_v2_only [OF h, of "\<lambda>j. Inr []" NetworkError 400000 400001 False] h f g t
    by simp
qed

text \<open>
  C7 as stated fails in v3: a first read fetches and caches a list; a read after the
  time-to-live, with the upstream failing, returns the fallback list, not that snapshot.
\<close>

theorem stale_cache_not_served_v3:
  "getServices_v3 (\<lambda>xs. Inr [JObj [(''id'', JNum 7446), (''name'', JStr ''Followers - Standard''),
                 (''rate'', JStr ''2.50''), (''min'', JNum 10), (''max'', JNum 500000)]]) 0 1
       (Reply (JArr [JObj [(''service'', JNum 7446), (''rate'', JStr ''1.00''),
                           (''min'', JNum 10), (''max'', JNum 500000)]]))
       \<lparr>servicesCache = None, cacheTimestamp = 0\<rparr>
     = ([JObj [(''id'', JNum 7446), (''name'', JStr ''Followers - Standard''),
                 (''rate'', JStr ''2.50''), (''min'', JNum 10), (''max'', JNum 500000)]], \<lparr>servicesCache = Some [JObj [(''id'', JNum 7446), (''name'', JStr ''Followers - Standard''),
                 (''rate'', JStr ''2.50''), (''min'', JNum 10), (''max'', JNum 500000)]], cacheTimestamp = 1\<rparr>)
   \<and> fst (getServices_v3 (\<lambda>xs. Inr [JObj [(''id'', JNum 7446), (''name'', JStr ''Followers - Standard''),
                 (''rate'', JStr ''2.50''), (''min'', JNum 10), (''max'', JNum 500000)]]) 400000 400001 NetworkError
            \<lparr>servicesCache = Some [JObj [(''id'', JNum 7446), (''name'', JStr ''Followers - Standard''),
                 (''rate'', JStr ''2.50''), (''min'', JNum 10), (''max'', JNum 500000)]], cacheTimestamp = 1\<rparr>)
     = getCuratedFallback
   \<and> getCuratedFallback \<noteq> [JObj [(''id'', JNum 7446), (''name'', JStr ''Followers - Standard''),
                 (''rate'', JStr ''2.50''), (''min'', JNum 10), (''max'', JNum 500000)]]"
  by (simp add: getServices_v3_def fetchJAPServices_def CACHE_DURATION_def getCuratedFallback_def
        CURATED_SERVICES_def)

end
